theory Spec2Isabelle
  imports
    Complex_Main
    "HOL-Library.Char_ord"
    "HOL-Library.List_Lexorder"
    "HOL-Library.Sublist"
    "HOL-Library.AList"
begin

section \<open>pex.pip.local\_project: extraction of a built sdist\<close>

subsection \<open>The functions of os.path (posixpath) that the module calls\<close>

text \<open>
  Paths are POSIX path strings. \<open>isabs\<close>, \<open>join\<close>, \<open>normpath\<close>, \<open>abspath\<close> and
  \<open>commonprefix\<close> follow the standard library's posixpath; \<open>abspath\<close> takes the
  process's working directory, which \<open>os.getcwd()\<close> reads, as an argument.
\<close>

definition isabs :: "string \<Rightarrow> bool" where
  "isabs p = (case p of [] \<Rightarrow> False | c # _ \<Rightarrow> c = CHR ''/'')"

definition endswith_sep :: "string \<Rightarrow> bool" where
  "endswith_sep p = (p \<noteq> [] \<and> last p = CHR ''/'')"

definition join :: "string \<Rightarrow> string \<Rightarrow> string" where
  "join a b =
     (if isabs b then b
      else if a = [] \<or> endswith_sep a then a @ b
      else a @ ''/'' @ b)"

fun split_sep :: "string \<Rightarrow> string list" where
  "split_sep [] = [[]]"
| "split_sep (c # cs) =
     (if c = CHR ''/'' then [] # split_sep cs
      else (case split_sep cs of [] \<Rightarrow> [[c]] | w # ws \<Rightarrow> (c # w) # ws))"

fun sep_join :: "string list \<Rightarrow> string" where
  "sep_join [] = []"
| "sep_join [c] = c"
| "sep_join (c # cs) = c @ ''/'' @ sep_join cs"

definition initial_slashes :: "string \<Rightarrow> nat" where
  "initial_slashes path =
     (if \<not> prefix ''/'' path then 0
      else if prefix ''//'' path \<and> \<not> prefix ''///'' path then 2
      else 1)"

text \<open>The loop of \<open>normpath\<close> over the components, \<open>new\<close> being \<open>new_comps\<close>.\<close>

fun norm_comps :: "nat \<Rightarrow> string list \<Rightarrow> string list \<Rightarrow> string list" where
  "norm_comps i [] new = new"
| "norm_comps i (c # comps) new =
     (if c = [] \<or> c = ''.'' then norm_comps i comps new
      else if c \<noteq> ''..'' \<or> (i = 0 \<and> new = []) \<or> (new \<noteq> [] \<and> last new = ''..'')
        then norm_comps i comps (new @ [c])
      else if new \<noteq> [] then norm_comps i comps (butlast new)
      else norm_comps i comps new)"

definition normpath :: "string \<Rightarrow> string" where
  "normpath path =
     (if path = [] then ''.''
      else
        let i = initial_slashes path;
            p = replicate i (CHR ''/'') @ sep_join (norm_comps i (split_sep path) [])
        in if p = [] then ''.'' else p)"

definition abspath :: "string \<Rightarrow> string \<Rightarrow> string" where
  "abspath cwd path = normpath (if isabs path then path else join cwd path)"

text \<open>
  \<open>commonprefix [a, b]\<close>: the loop runs over \<open>s1 = min\<close> against \<open>s2 = max\<close>, character by
  character. \<open>s1 \<le> s2\<close> keeps \<open>s2[i]\<close> in range, so the second equation is never reached.
\<close>

fun cp_loop :: "string \<Rightarrow> string \<Rightarrow> string" where
  "cp_loop [] s2 = []"
| "cp_loop (c # s1) [] = []"
| "cp_loop (c # s1) (d # s2) = (if c \<noteq> d then [] else c # cp_loop s1 s2)"

definition commonprefix :: "string \<Rightarrow> string \<Rightarrow> string" where
  "commonprefix a b = cp_loop (min a b) (max a b)"

subsection \<open>The file system and the archive\<close>

text \<open>
  A file system is the list of the absolute, normalised paths of its files and directories;
  the parents of an entry exist with it. A tar archive is the list of its members' names.
  \<open>inside base p\<close> says that the entry \<open>p\<close> is \<open>base\<close> or lies below it, component by
  component.
\<close>

type_synonym fs = "string list"

definition with_sep :: "string \<Rightarrow> string" where
  "with_sep base = (if endswith_sep base then base else base @ ''/'')"

definition inside :: "string \<Rightarrow> string \<Rightarrow> bool" where
  "inside base p = (p = base \<or> prefix (with_sep base) p)"

text \<open>
  \<open>TarFile.extractall(path)\<close> writes each member at \<open>os.path.join(path, member.name)\<close>,
  and creates the missing directories above it with \<open>os.makedirs\<close>, which goes through
  the path as it is written, component by component: afterwards each leading part of the
  path exists. \<open>leading_paths\<close> lists these parts, the path itself last.
\<close>

definition leading_paths :: "string \<Rightarrow> string list" where
  "leading_paths p = filter (\<lambda>q. q \<noteq> []) (map sep_join (prefixes (split_sep p)))"

definition add_entry :: "fs \<Rightarrow> string \<Rightarrow> fs" where
  "add_entry files p = (if p \<in> set files then files else files @ [p])"

definition extractall :: "string \<Rightarrow> fs \<Rightarrow> string list \<Rightarrow> string \<Rightarrow> fs" where
  "extractall cwd files members path =
     foldl add_entry files
       (concat (map (\<lambda>name. map (abspath cwd) (leading_paths (join path name))) members))"

text \<open>
  \<open>os.listdir(d)\<close>: the names of the entries directly below \<open>d\<close>; an \<open>OSError\<close> when
  \<open>d\<close> does not exist.
\<close>

definition entry_name :: "string \<Rightarrow> string \<Rightarrow> string option" where
  "entry_name base p =
     (if prefix (with_sep base) p
      then Some (takeWhile (\<lambda>c. c \<noteq> CHR ''/'') (drop (length (with_sep base)) p))
      else None)"

datatype exn =
    Exception string
  | AssertionError "string list"
  | OSError string

definition listdir :: "string \<Rightarrow> fs \<Rightarrow> string \<Rightarrow> exn + string list" where
  "listdir cwd files d =
     (let base = abspath cwd d in
      if \<not> list_ex (inside base) files then Inl (OSError base)
      else Inr (remdups (filter (\<lambda>n. n \<noteq> []) (List.map_filter (entry_name base) files))))"

subsection \<open>digest\_local\_project\<close>

definition is_within_directory :: "string \<Rightarrow> string \<Rightarrow> string \<Rightarrow> bool" where
  "is_within_directory cwd directory target =
     (let abs_directory = abspath cwd directory;
          abs_target = abspath cwd target;
          pre = commonprefix abs_directory abs_target
      in pre = abs_directory)"

text \<open>The loop of \<open>safe_extract\<close> over \<open>tar.getmembers()\<close>; it raises at the first failure.\<close>

fun check_members :: "string \<Rightarrow> string \<Rightarrow> string list \<Rightarrow> exn option" where
  "check_members cwd path [] = None"
| "check_members cwd path (name # members) =
     (let member_path = join path name in
      if \<not> is_within_directory cwd path member_path
      then Some (Exception ''Attempted Path Traversal in Tar File'')
      else check_members cwd path members)"

definition safe_extract :: "string \<Rightarrow> fs \<Rightarrow> string list \<Rightarrow> string \<Rightarrow> exn + fs" where
  "safe_extract cwd files members path =
     (case check_members cwd path members of
        Some e \<Rightarrow> Inl e
      | None \<Rightarrow> Inr (extractall cwd files members path))"

text \<open>
  What the call depends on outside the module: the working directory, the directory that
  \<open>temporary_dir()\<close> yields, \<open>pep_517.build_sdist\<close> (an \<open>Error\<close> message, or the members of
  the archive it built) and \<open>hashing.dir_hash\<close>, which feeds the digest.
\<close>

record 'd env =
  cwd :: string
  td :: string
  build_sdist :: "string \<Rightarrow> string \<Rightarrow> string + string list"
  dir_hash :: "fs \<Rightarrow> string \<Rightarrow> 'd \<Rightarrow> 'd"

text \<open>
  The function returns an \<open>Error\<close> value or a path, or raises. The digest is an argument
  that the call updates, so the model returns it with the path.
\<close>

datatype 'd outcome =
    Returned_Error string
  | Raised exn
  | Returned_path string 'd

text \<open>Leaving \<open>with temporary_dir() as td\<close> removes \<open>td\<close> and what is below it.\<close>

definition cleanup :: "'d env \<Rightarrow> fs \<Rightarrow> fs" where
  "cleanup env files = filter (\<lambda>p. \<not> inside (abspath (cwd env) (td env)) p) files"

text \<open>\<open>extract_dir = dest_dir or os.path.join(td, "extracted")\<close>\<close>

definition extract_dir :: "'d env \<Rightarrow> string option \<Rightarrow> string" where
  "extract_dir env dest_dir =
     (case dest_dir of
        None \<Rightarrow> join (td env) ''extracted''
      | Some d \<Rightarrow> if d = [] then join (td env) ''extracted'' else d)"

definition digest_local_project ::
  "'d env \<Rightarrow> fs \<Rightarrow> string \<Rightarrow> 'd \<Rightarrow> string option \<Rightarrow> 'd outcome \<times> fs" where
  "digest_local_project env files directory digest dest_dir =
     (case build_sdist env directory (join (td env) ''dists'') of
        Inl err \<Rightarrow> (Returned_Error err, cleanup env files)
      | Inr members \<Rightarrow>
          (case safe_extract (cwd env) files members (extract_dir env dest_dir) of
             Inl e \<Rightarrow> (Raised e, cleanup env files)
           | Inr files' \<Rightarrow>
               (case listdir (cwd env) files' (extract_dir env dest_dir) of
                  Inl e \<Rightarrow> (Raised e, cleanup env files')
                | Inr listing \<Rightarrow>
                    (case listing of
                       [name] \<Rightarrow>
                         let project_dir = join (extract_dir env dest_dir) name in
                         (Returned_path (join (extract_dir env dest_dir) project_dir)
                            (dir_hash env files' project_dir digest),
                          cleanup env files')
                     | _ \<Rightarrow> (Raised (AssertionError listing), cleanup env files')))))"

text \<open>An environment to run the model in: the build yields the given archive.\<close>

definition env0 :: "string list \<Rightarrow> nat env" where
  "env0 members =
     \<lparr> cwd = ''/work'', td = ''/tmp/td'',
       build_sdist = (\<lambda>project_directory dist_dir. Inr members),
       dir_hash = (\<lambda>files directory digest. Suc digest) \<rparr>"

section \<open>pex.resolve.lockfile.json\_codec: the lock file codec\<close>

subsection \<open>JSON values as Python sees them\<close>

text \<open>
  What \<open>json.loads\<close> returns: \<open>None\<close>, a \<open>bool\<close>, an \<open>int\<close>, a \<open>float\<close>, a \<open>str\<close>, a
  \<open>list\<close> or a \<open>dict\<close> with string keys. A dict is an association list in insertion
  order, read with \<open>map_of\<close> and written with \<open>AList.update\<close>.
\<close>

datatype json =
    JNull
  | JBool bool
  | JInt int
  | JFloat real
  | JStr string
  | JList "json list"
  | JObj "(string \<times> json) list"

text \<open>\<open>type(value).__name__\<close>\<close>

fun type_name :: "json \<Rightarrow> string" where
  "type_name JNull = ''NoneType''"
| "type_name (JBool b) = ''bool''"
| "type_name (JInt n) = ''int''"
| "type_name (JFloat r) = ''float''"
| "type_name (JStr s) = ''str''"
| "type_name (JList xs) = ''list''"
| "type_name (JObj kvs) = ''dict''"

text \<open>Python's truth value of a JSON value, as \<open>if value\<close>, \<open>not value\<close> and \<open>or\<close> test it.\<close>

fun truthy :: "json \<Rightarrow> bool" where
  "truthy JNull = False"
| "truthy (JBool b) = b"
| "truthy (JInt n) = (n \<noteq> 0)"
| "truthy (JFloat r) = (r \<noteq> 0)"
| "truthy (JStr s) = (s \<noteq> [])"
| "truthy (JList xs) = (xs \<noteq> [])"
| "truthy (JObj kvs) = (kvs \<noteq> [])"

text \<open>The types that the codec passes as \<open>expected_type\<close>, and \<open>isinstance\<close> on them.\<close>

datatype pytype = T_str | T_list | T_dict | T_bool

fun pytype_name :: "pytype \<Rightarrow> string" where
  "pytype_name T_str = ''str''"
| "pytype_name T_list = ''list''"
| "pytype_name T_dict = ''dict''"
| "pytype_name T_bool = ''bool''"

fun isinstance :: "json \<Rightarrow> pytype \<Rightarrow> bool" where
  "isinstance (JStr s) T_str = True"
| "isinstance (JList xs) T_list = True"
| "isinstance (JObj kvs) T_dict = True"
| "isinstance (JBool b) T_bool = True"
| "isinstance v t = False"

text \<open>
  The errors of the codec. A \<open>ParseError\<close> carries its message as the template that built
  it, one constructor for each \<open>format\<close> call of the module, with the arguments of the
  call in the order of the placeholders' first occurrence:
  \<^item> \<open>InvalidJSON source err\<close>: "The lock file at {source} does not contain valid JSON: {err}"
  \<^item> \<open>NotAnObject path key source type value\<close>: "Cannot retrieve '{path}["{key}"]' in {source}
    because '{path}' is not a JSON object but a {type} with value {value}."
  \<^item> \<open>MissingKey path source key\<close>: "The object at '{path}' in {source} did not have the
    expected key {key!r}."
  \<^item> \<open>WrongType path key source expected_type type value\<close>: "Expected '{path}["{key}"]' in
    {source} to be of type {expected_type} but given {type} with value {value}."
  \<^item> \<open>InvalidEnum path err\<close>: "The '{path}' is invalid: {err}"
  \<^item> \<open>InvalidRequirement path err\<close>: "The requirement string at '{path}' is invalid: {err}"
  \<^item> \<open>InvalidSpecifier path err\<close>: "The version specifier at '{path}' is invalid: {err}"
  \<^item> \<open>BadTag path count types components\<close>: "The tag at '{path}' must have 3 string
    components. Given {count} with types [{types}]: {components}", \<open>types\<close> being the list
    of the type names that the message joins with commas
  \<^item> \<open>NoArtifacts path source\<close>: "Expected '{path}' in {source} to have at least one
    artifact."

  \<open>PathMappingError\<close> is the subclass of \<open>ParseError\<close> with the attributes
  \<open>required_path_mappings\<close> and \<open>unspecified_paths\<close>. \<open>Uncaught\<close> stands for an exception
  that is no \<open>ParseError\<close> (a \<open>TypeError\<close> or \<open>KeyError\<close> of the interpreter, or an
  exception of a constructor that the codec does not catch); it carries the exception's name.
\<close>

datatype message =
    InvalidJSON string string
  | NotAnObject string string string string json
  | MissingKey string string string
  | WrongType string string string string string json
  | InvalidEnum string string
  | InvalidRequirement string string
  | InvalidSpecifier string string
  | BadTag string nat "string list" json
  | NoArtifacts string string

datatype error =
    ParseError message
  | PathMappingError json "json set"
  | Uncaught string

fun is_ParseError :: "error \<Rightarrow> bool" where
  "is_ParseError (ParseError m) = True"
| "is_ParseError (PathMappingError required unspecified) = True"
| "is_ParseError (Uncaught e) = False"

text \<open>Sequencing: an exception ends the computation.\<close>

definition and_then :: "error + 'a \<Rightarrow> ('a \<Rightarrow> error + 'b) \<Rightarrow> error + 'b" where
  "and_then m f = (case m of Inl e \<Rightarrow> Inl e | Inr x \<Rightarrow> f x)"

text \<open>
  A comprehension or an appending loop over \<open>enumerate(xs)\<close> whose body may raise: the
  elements are handled in order, and the first exception ends the loop.
\<close>

fun traverse :: "(nat \<Rightarrow> 'a \<Rightarrow> error + 'b) \<Rightarrow> nat \<Rightarrow> 'a list \<Rightarrow> error + 'b list" where
  "traverse f i [] = Inr []"
| "traverse f i (x # xs) =
     and_then (f i x) (\<lambda>y. and_then (traverse f (Suc i) xs) (\<lambda>ys. Inr (y # ys)))"

text \<open>\<open>str(index)\<close> of a list index, for the paths of the messages.\<close>

fun digit :: "nat \<Rightarrow> char" where
  "digit n = ''0123456789'' ! (n mod 10)"

fun str_nat :: "nat \<Rightarrow> string" where
  "str_nat n = (if n < 10 then [digit n] else str_nat (n div 10) @ [digit n])"

declare str_nat.simps [simp del]

text \<open>
  Iterating a value (\<open>for x in value\<close>, \<open>enumerate(value)\<close>, \<open>set(value)\<close>, \<open>len(value)\<close>):
  a list gives its elements, a dict its keys, a string its characters; any other value
  raises \<open>TypeError\<close>.
\<close>

definition keys :: "(string \<times> json) list \<Rightarrow> string list" where
  "keys kvs = remdups (map fst kvs)"

fun py_iter :: "json \<Rightarrow> error + json list" where
  "py_iter (JList xs) = Inr xs"
| "py_iter (JObj kvs) = Inr (map JStr (keys kvs))"
| "py_iter (JStr s) = Inr (map (\<lambda>c. JStr [c]) s)"
| "py_iter v = Inl (Uncaught ''TypeError'')"

text \<open>Only lists and dicts among the JSON values are unhashable.\<close>

fun hashable :: "json \<Rightarrow> bool" where
  "hashable (JList xs) = False"
| "hashable (JObj kvs) = False"
| "hashable v = True"

subsection \<open>The typed accessor\<close>

text \<open>
  \<open>get\<close> of \<open>loads\<close>; \<open>src\<close> is the \<open>source\<close> of the enclosing call. The default of
  \<open>data\<close> is the parsed document and that of \<open>path\<close> is \<open>"."\<close>; the callers below pass
  both. A key that is absent and optional gives \<open>None\<close>.
\<close>

definition get :: "string \<Rightarrow> string \<Rightarrow> pytype \<Rightarrow> json \<Rightarrow> string \<Rightarrow> bool \<Rightarrow> error + json" where
  "get src key expected_type data path optional =
     (case data of
        JObj kvs \<Rightarrow>
          (case map_of kvs key of
             None \<Rightarrow>
               if optional then Inr JNull
               else Inl (ParseError (MissingKey path src key))
           | Some v \<Rightarrow>
               if \<not> optional \<and> \<not> isinstance v expected_type
               then Inl (ParseError
                      (WrongType path key src (pytype_name expected_type) (type_name v) v))
               else Inr v)
      | _ \<Rightarrow> Inl (ParseError (NotAnObject path key src (type_name data) data)))"

text \<open>
  Reading a value that \<open>get\<close> has checked: the other cases are not reached behind a
  required \<open>get\<close> of the matching type.
\<close>

fun the_str :: "json \<Rightarrow> string" where
  "the_str (JStr s) = s"
| "the_str v = []"

fun the_list :: "json \<Rightarrow> json list" where
  "the_list (JList xs) = xs"
| "the_list v = []"

fun the_bool :: "json \<Rightarrow> bool" where
  "the_bool (JBool b) = b"
| "the_bool v = False"

subsection \<open>The value model and the interface to the rest of pex\<close>

text \<open>
  The classes of the value model live in \<open>pex.resolve.locked_resolve\<close>,
  \<open>pex.resolve.resolved_requirement\<close>, \<open>pex.resolve.lockfile.model\<close> and
  \<open>pex.resolve.path_mappings\<close>, outside the two modules. The records below are modelled
  from the spec: each holds the fields that section 3 of the spec lists, the sequences in
  the order given, and each constructor (\<open>Artifact.from_url\<close>, \<open>Fingerprint\<close>, \<open>Pin\<close>,
  \<open>tags.Tag\<close>, \<open>LockedRequirement.create\<close>, \<open>LockedResolve\<close>, \<open>Lockfile.create\<close>) stores
  its arguments. The objects whose classes the codec treats as opaque (\<open>Requirement\<close>,
  \<open>SpecifierSet\<close>, \<open>ProjectName\<close>, \<open>Version\<close> and the values of the four enums) are the
  elements of the type parameter \<open>'x\<close>.
\<close>

record Fingerprint =
  algorithm :: string
  hash :: string

record Artifact =
  url :: string
  fingerprint :: Fingerprint

record Tag =
  interpreter :: string
  abi :: string
  platform :: string

record 'x Pin =
  project_name :: 'x
  version :: 'x

record 'x LockedRequirement =
  pin :: "'x Pin"
  req_requires_python :: "'x option"
  requires_dists :: "'x list"
  artifact :: Artifact
  additional_artifacts :: "Artifact list"

record 'x LockedResolve =
  platform_tag :: "Tag option"
  locked_requirements :: "'x LockedRequirement list"

text \<open>
  \<open>use_pep517\<close> and the entries of \<open>requires_python\<close> are stored as \<open>get\<close> returns them,
  so they are JSON values; \<open>source\<close> is the provenance, which is not serialized.
\<close>

record 'x Lockfile =
  pex_version :: string
  style :: 'x
  requires_python :: "json list"
  target_systems :: "'x list"
  pip_version :: 'x
  resolver_version :: 'x
  requirements :: "'x list"
  constraints :: "'x list"
  allow_prereleases :: bool
  allow_wheels :: bool
  allow_builds :: bool
  prefer_older_binary :: bool
  use_pep517 :: json
  build_isolation :: bool
  transitive :: bool
  locked_resolves :: "'x LockedResolve list"
  source :: string

record PathMapping =
  pm_name :: string
  pm_destination :: "string option"
  pm_description :: "string option"

type_synonym PathMappings = "PathMapping list"

datatype enum_type = LockStyle | TargetSystem | PipVersion | ResolverVersion

text \<open>
  What the codec calls outside the module, taken as parameters:
  \<^item> \<open>Requirement_parse\<close>: \<open>Requirement.parse\<close>, the message of its
    \<open>RequirementParseError\<close> on the left;
  \<^item> \<open>SpecifierSet_new\<close>: \<open>SpecifierSet(...)\<close>, the message of \<open>InvalidSpecifier\<close> on the
    left;
  \<^item> \<open>ProjectName_new\<close>, \<open>Version_new\<close>: the two constructors, on the left the name of an
    exception they raise, which \<open>loads\<close> does not catch;
  \<^item> \<open>for_value\<close>: \<open>Enum.for_value\<close> of the given enum, the message of its \<open>ValueError\<close>
    on the left;
  \<^item> \<open>str_of\<close>, \<open>bool_of\<close>: \<open>str(x)\<close> and the truth value of an opaque object;
  \<^item> \<open>maybe_reify\<close>, \<open>maybe_canonicalize\<close>: the two methods of \<open>PathMappings\<close>;
  \<^item> \<open>default_pip_version\<close>: \<open>_DEFAULT_PIP_CONFIGURATION.version\<close>;
  \<^item> \<open>lt\<close>: the order \<open><\<close> of \<open>LockedRequirement\<close>, which \<open>SortedTuple\<close> sorts by.
  The functions that take a string are applied to strings only: where the document
  supplies another value to one of them, the model raises \<open>TypeError\<close>.
\<close>

record 'x ext =
  Requirement_parse :: "string \<Rightarrow> string + 'x"
  SpecifierSet_new :: "string \<Rightarrow> string + 'x"
  ProjectName_new :: "string \<Rightarrow> string + 'x"
  Version_new :: "string \<Rightarrow> string + 'x"
  for_value :: "enum_type \<Rightarrow> json \<Rightarrow> string + 'x"
  str_of :: "'x \<Rightarrow> string"
  bool_of :: "'x \<Rightarrow> bool"
  maybe_reify :: "PathMappings \<Rightarrow> string \<Rightarrow> string"
  maybe_canonicalize :: "PathMappings \<Rightarrow> string \<Rightarrow> string"
  default_pip_version :: "'x option"
  lt :: "'x LockedRequirement \<Rightarrow> 'x LockedRequirement \<Rightarrow> bool"

text \<open>
  \<open>SortedTuple(xs)\<close> is \<open>tuple(sorted(xs))\<close>, a stable sort by \<open><\<close>: each element is
  placed behind the elements smaller than it.
\<close>

fun insort_lt :: "('a \<Rightarrow> 'a \<Rightarrow> bool) \<Rightarrow> 'a \<Rightarrow> 'a list \<Rightarrow> 'a list" where
  "insort_lt lessp x [] = [x]"
| "insort_lt lessp x (y # ys) = (if lessp y x then y # insort_lt lessp x ys else x # y # ys)"

definition SortedTuple :: "('a \<Rightarrow> 'a \<Rightarrow> bool) \<Rightarrow> 'a list \<Rightarrow> 'a list" where
  "SortedTuple lessp xs = foldr (insort_lt lessp) xs []"

subsection \<open>loads\<close>

definition parse_enum_value :: "'x ext \<Rightarrow> enum_type \<Rightarrow> json \<Rightarrow> string \<Rightarrow> error + 'x" where
  "parse_enum_value ext enum_type v path =
     (case for_value ext enum_type v of
        Inl err \<Rightarrow> Inl (ParseError (InvalidEnum path err))
      | Inr e \<Rightarrow> Inr e)"

text \<open>
  \<open>get_enum_value(enum_type, key, default=...)\<close>, called with the document and the path
  \<open>"."\<close> only; \<open>dflt\<close> is its \<open>default\<close>. \<open>get\<close> is called with its default
  \<open>expected_type\<close>, the string type.
\<close>

definition get_enum_value ::
  "'x ext \<Rightarrow> string \<Rightarrow> json \<Rightarrow> enum_type \<Rightarrow> string \<Rightarrow> string \<Rightarrow> 'x option \<Rightarrow> error + 'x" where
  \<open>get_enum_value ext src data enum_type key path dflt =
     and_then (get src key T_str data path (dflt \<noteq> None)) (\<lambda>v.
       case dflt of
         Some d \<Rightarrow>
           if \<not> truthy v \<and> bool_of ext d then Inr d
           else parse_enum_value ext enum_type v (path @ ''["'' @ key @ ''"]'')
       | None \<Rightarrow> parse_enum_value ext enum_type v (path @ ''["'' @ key @ ''"]''))\<close>

definition parse_requirement :: "'x ext \<Rightarrow> PathMappings \<Rightarrow> json \<Rightarrow> string \<Rightarrow> error + 'x" where
  "parse_requirement ext path_mappings raw_requirement path =
     (case raw_requirement of
        JStr s \<Rightarrow>
          (case Requirement_parse ext (maybe_reify ext path_mappings s) of
             Inl err \<Rightarrow> Inl (ParseError (InvalidRequirement path err))
           | Inr r \<Rightarrow> Inr r)
      | _ \<Rightarrow> Inl (Uncaught ''TypeError''))"

definition parse_version_specifier :: "'x ext \<Rightarrow> json \<Rightarrow> string \<Rightarrow> error + 'x" where
  "parse_version_specifier ext raw_version_specifier path =
     (case raw_version_specifier of
        JStr s \<Rightarrow>
          (case SpecifierSet_new ext s of
             Inl err \<Rightarrow> Inl (ParseError (InvalidSpecifier path err))
           | Inr spec \<Rightarrow> Inr spec)
      | _ \<Rightarrow> Inl (Uncaught ''TypeError''))"

text \<open>
  The check of the declared path mappings, lines 183 to 189:
  \<open>get("path_mappings", dict, optional=True) or {}\<close>, then the set difference.
\<close>

definition check_path_mappings :: "string \<Rightarrow> PathMappings \<Rightarrow> json \<Rightarrow> error + unit" where
  "check_path_mappings src path_mappings data =
     and_then (get src ''path_mappings'' T_dict data ''.'' True) (\<lambda>v.
       let required_path_mappings = (if truthy v then v else JObj []);
           given_mappings = map (\<lambda>mapping. JStr (pm_name mapping)) path_mappings
       in and_then (py_iter required_path_mappings) (\<lambda>elems.
            if \<not> list_all hashable elems then Inl (Uncaught ''TypeError'')
            else
              let unspecified_paths = filter (\<lambda>n. n \<notin> set given_mappings) elems
              in if unspecified_paths \<noteq> []
                 then Inl (PathMappingError required_path_mappings (set unspecified_paths))
                 else Inr ()))"

text \<open>\<open>get("target_systems", list, optional=True) or ()\<close> and the comprehension over it.\<close>

definition get_target_systems :: "'x ext \<Rightarrow> string \<Rightarrow> json \<Rightarrow> error + 'x list" where
  "get_target_systems ext src data =
     and_then (get src ''target_systems'' T_list data ''.'' True) (\<lambda>v.
       and_then (if truthy v then py_iter v else Inr []) (\<lambda>elems.
         traverse
           (\<lambda>index target_system.
              parse_enum_value ext TargetSystem target_system
                (''.target_systems['' @ str_nat index @ '']''))
           0 elems))"

text \<open>The comprehensions for \<open>requirements\<close> and \<open>constraints\<close>, \<open>key\<close> naming the list.\<close>

definition get_requirements ::
  "'x ext \<Rightarrow> string \<Rightarrow> PathMappings \<Rightarrow> json \<Rightarrow> string \<Rightarrow> error + 'x list" where
  "get_requirements ext src path_mappings data key =
     and_then (get src key T_list data ''.'' False) (\<lambda>v.
       traverse
         (\<lambda>index req.
            parse_requirement ext path_mappings req (''.'' @ key @ ''['' @ str_nat index @ '']''))
         0 (the_list v))"

text \<open>
  \<open>assemble_tag\<close>: \<open>len(components)\<close> and the iteration raise \<open>TypeError\<close> on a value that
  has no length; \<open>components[0]\<close> on a dict raises \<open>KeyError\<close>.
\<close>

definition assemble_tag :: "json \<Rightarrow> string \<Rightarrow> error + Tag" where
  "assemble_tag components path =
     and_then (py_iter components) (\<lambda>elems.
       if length elems \<noteq> 3 \<or> \<not> list_all (\<lambda>c. isinstance c T_str) elems
       then Inl (ParseError (BadTag path (length elems) (map type_name elems) components))
       else
         (case components of
            JObj kvs \<Rightarrow> Inl (Uncaught ''KeyError'')
          | _ \<Rightarrow>
             Inr \<lparr> interpreter = the_str (elems ! 0), abi = the_str (elems ! 1),
                   platform = the_str (elems ! 2) \<rparr>))"

definition get_artifact ::
  "'x ext \<Rightarrow> string \<Rightarrow> PathMappings \<Rightarrow> string \<Rightarrow> nat \<Rightarrow> json \<Rightarrow> error + Artifact" where
  \<open>get_artifact ext src path_mappings req_path i art =
     (let ap = req_path @ ''["artifacts"]['' @ str_nat i @ '']'' in
      and_then (get src ''url'' T_str art ap False) (\<lambda>u.
      and_then (get src ''algorithm'' T_str art ap False) (\<lambda>a.
      and_then (get src ''hash'' T_str art ap False) (\<lambda>h.
        Inr \<lparr> url = maybe_reify ext path_mappings (the_str u),
              fingerprint = \<lparr> algorithm = the_str a, hash = the_str h \<rparr> \<rparr>))))\<close>

text \<open>The body of the loop over \<open>locked_requirements\<close>, lines 245 to 293.\<close>

definition get_locked_requirement ::
  "'x ext \<Rightarrow> string \<Rightarrow> PathMappings \<Rightarrow> string \<Rightarrow> nat \<Rightarrow> json \<Rightarrow> error + 'x LockedRequirement"
  where
  \<open>get_locked_requirement ext src path_mappings lock_path req_index req =
     (let req_path = lock_path @ ''['' @ str_nat req_index @ '']'' in
      and_then (get src ''artifacts'' T_list req req_path False) (\<lambda>arts.
      and_then (traverse (get_artifact ext src path_mappings req_path) 0 (the_list arts))
        (\<lambda>artifacts.
      if artifacts = [] then Inl (ParseError (NoArtifacts req_path src))
      else
      and_then (get src ''requires_python'' T_str req req_path True) (\<lambda>version_specifier.
      and_then
        (if truthy version_specifier
         then and_then
                (parse_version_specifier ext version_specifier
                   (req_path @ ''["requires_python"]''))
                (\<lambda>spec. Inr (Some spec))
         else Inr None) (\<lambda>rp.
      and_then (get src ''project_name'' T_str req req_path False) (\<lambda>pn.
      and_then (case ProjectName_new ext (the_str pn) of
                  Inl e \<Rightarrow> Inl (Uncaught e) | Inr n \<Rightarrow> Inr n) (\<lambda>name.
      and_then (get src ''version'' T_str req req_path False) (\<lambda>ver.
      and_then (case Version_new ext (the_str ver) of
                  Inl e \<Rightarrow> Inl (Uncaught e) | Inr n \<Rightarrow> Inr n) (\<lambda>vers.
      and_then (get src ''requires_dists'' T_list req req_path False) (\<lambda>dists.
      and_then
        (traverse
           (\<lambda>i requires_dist.
              parse_requirement ext path_mappings requires_dist
                (req_path @ ''["requires_dists"]['' @ str_nat i @ '']''))
           0 (the_list dists)) (\<lambda>rds.
        Inr \<lparr> pin = \<lparr> project_name = name, version = vers \<rparr>,
              req_requires_python = rp,
              requires_dists = rds,
              artifact = hd artifacts,
              additional_artifacts = tl artifacts \<rparr>)))))))))))\<close>

text \<open>The body of the loop over \<open>locked_resolves\<close>, lines 229 to 297.\<close>

definition get_locked_resolve ::
  "'x ext \<Rightarrow> string \<Rightarrow> PathMappings \<Rightarrow> nat \<Rightarrow> json \<Rightarrow> error + 'x LockedResolve" where
  \<open>get_locked_resolve ext src path_mappings lock_index locked_resolve =
     (let lock_path = ''.locked_resolves['' @ str_nat lock_index @ '']'' in
      and_then (get src ''platform_tag'' T_list locked_resolve lock_path True)
        (\<lambda>platform_tag_components.
      and_then
        (if truthy platform_tag_components
         then and_then (assemble_tag platform_tag_components (lock_path @ ''["platform_tag"]''))
                (\<lambda>t. Inr (Some t))
         else Inr None) (\<lambda>tag.
      and_then (get src ''locked_requirements'' T_list locked_resolve lock_path False) (\<lambda>reqs.
      and_then
        (traverse (get_locked_requirement ext src path_mappings lock_path) 0 (the_list reqs))
        (\<lambda>locked_reqs.
        Inr \<lparr> platform_tag = tag,
              locked_requirements = SortedTuple (lt ext) locked_reqs \<rparr>)))))\<close>


text \<open>
  \<open>loads\<close>. The argument \<open>lockfile_contents\<close> is the text as \<open>json.loads\<close> reads it: the
  message of its \<open>ValueError\<close> on the left, the document on the right. The steps follow
  the order in which the source evaluates them.
\<close>

definition loads ::
  "'x ext \<Rightarrow> string + json \<Rightarrow> string \<Rightarrow> PathMappings \<Rightarrow> error + 'x Lockfile" where
  "loads ext lockfile_contents src path_mappings =
     (case lockfile_contents of
        Inl err \<Rightarrow> Inl (ParseError (InvalidJSON src err))
      | Inr data \<Rightarrow>
      and_then (check_path_mappings src path_mappings data) (\<lambda>_.
      and_then (get_target_systems ext src data) (\<lambda>targets.
      and_then (get_requirements ext src path_mappings data ''requirements'') (\<lambda>reqs.
      and_then (get_requirements ext src path_mappings data ''constraints'') (\<lambda>cons.
      and_then (get src ''locked_resolves'' T_list data ''.'' False) (\<lambda>lrs.
      and_then (traverse (get_locked_resolve ext src path_mappings) 0 (the_list lrs))
        (\<lambda>resolves.
      and_then (get src ''pex_version'' T_str data ''.'' False) (\<lambda>pexv.
      and_then (get_enum_value ext src data LockStyle ''style'' ''.'' None) (\<lambda>sty.
      and_then (get src ''requires_python'' T_list data ''.'' False) (\<lambda>rp.
      and_then (get_enum_value ext src data PipVersion ''pip_version'' ''.''
                  (default_pip_version ext)) (\<lambda>pipv.
      and_then (get_enum_value ext src data ResolverVersion ''resolver_version'' ''.'' None)
        (\<lambda>resv.
      and_then (get src ''allow_prereleases'' T_bool data ''.'' False) (\<lambda>pre.
      and_then (get src ''allow_wheels'' T_bool data ''.'' False) (\<lambda>wheels.
      and_then (get src ''allow_builds'' T_bool data ''.'' False) (\<lambda>builds.
      and_then (get src ''prefer_older_binary'' T_bool data ''.'' False) (\<lambda>older.
      and_then (get src ''use_pep517'' T_bool data ''.'' True) (\<lambda>pep517.
      and_then (get src ''build_isolation'' T_bool data ''.'' False) (\<lambda>isolation.
      and_then (get src ''transitive'' T_bool data ''.'' False) (\<lambda>transv.
        Inr \<lparr> pex_version = the_str pexv,
              style = sty,
              requires_python = the_list rp,
              target_systems = targets,
              pip_version = pipv,
              resolver_version = resv,
              requirements = reqs,
              constraints = cons,
              allow_prereleases = the_bool pre,
              allow_wheels = the_bool wheels,
              allow_builds = the_bool builds,
              prefer_older_binary = the_bool older,
              use_pep517 = pep517,
              build_isolation = the_bool isolation,
              transitive = the_bool transv,
              locked_resolves = resolves,
              source = src \<rparr>)))))))))))))))))))"

subsection \<open>as\_json\_data\<close>

text \<open>A dict comprehension: a later item with the same key overwrites the earlier one.\<close>

definition dict_of :: "(string \<times> json) list \<Rightarrow> (string \<times> json) list" where
  "dict_of items = foldl (\<lambda>d (k, v). AList.update k v d) [] items"

fun opt_str :: "string option \<Rightarrow> json" where
  "opt_str None = JNull"
| "opt_str (Some s) = JStr s"

text \<open>\<open>req.iter_artifacts()\<close>: the primary artifact, then the additional ones.\<close>

definition iter_artifacts :: "'x LockedRequirement \<Rightarrow> Artifact list" where
  "iter_artifacts req = artifact req # additional_artifacts req"

definition artifact_json :: "'x ext \<Rightarrow> PathMappings \<Rightarrow> Artifact \<Rightarrow> json" where
  "artifact_json ext path_mappings art =
     JObj [(''url'', JStr (maybe_canonicalize ext path_mappings (url art))),
           (''algorithm'', JStr (algorithm (fingerprint art))),
           (''hash'', JStr (hash (fingerprint art)))]"

definition locked_requirement_json ::
  "'x ext \<Rightarrow> PathMappings \<Rightarrow> 'x LockedRequirement \<Rightarrow> json" where
  "locked_requirement_json ext path_mappings req =
     JObj [(''project_name'', JStr (str_of ext (project_name (pin req)))),
           (''version'', JStr (str_of ext (version (pin req)))),
           (''requires_dists'',
              JList (map (\<lambda>dependency.
                            JStr (maybe_canonicalize ext path_mappings (str_of ext dependency)))
                       (requires_dists req))),
           (''requires_python'',
              (case req_requires_python req of
                 None \<Rightarrow> JNull
               | Some spec \<Rightarrow> if bool_of ext spec then JStr (str_of ext spec) else JNull)),
           (''artifacts'', JList (map (artifact_json ext path_mappings) (iter_artifacts req)))]"

definition locked_resolve_json :: "'x ext \<Rightarrow> PathMappings \<Rightarrow> 'x LockedResolve \<Rightarrow> json" where
  "locked_resolve_json ext path_mappings locked_resolve =
     JObj [(''platform_tag'',
              (case platform_tag locked_resolve of
                 Some t \<Rightarrow> JList [JStr (interpreter t), JStr (abi t), JStr (platform t)]
               | None \<Rightarrow> JNull)),
           (''locked_requirements'',
              JList (map (locked_requirement_json ext path_mappings)
                       (locked_requirements locked_resolve)))]"

definition as_json_data :: "'x ext \<Rightarrow> 'x Lockfile \<Rightarrow> PathMappings \<Rightarrow> json" where
  "as_json_data ext lockfile path_mappings =
     JObj [(''pex_version'', JStr (pex_version lockfile)),
           (''style'', JStr (str_of ext (style lockfile))),
           (''requires_python'', JList (requires_python lockfile)),
           (''target_systems'',
              JList (map (\<lambda>target_system. JStr (str_of ext target_system))
                       (target_systems lockfile))),
           (''pip_version'', JStr (str_of ext (pip_version lockfile))),
           (''resolver_version'', JStr (str_of ext (resolver_version lockfile))),
           (''requirements'',
              JList (map (\<lambda>req. JStr (maybe_canonicalize ext path_mappings (str_of ext req)))
                       (requirements lockfile))),
           (''constraints'',
              JList (map (\<lambda>constraint. JStr (str_of ext constraint)) (constraints lockfile))),
           (''allow_prereleases'', JBool (allow_prereleases lockfile)),
           (''allow_wheels'', JBool (allow_wheels lockfile)),
           (''allow_builds'', JBool (allow_builds lockfile)),
           (''prefer_older_binary'', JBool (prefer_older_binary lockfile)),
           (''use_pep517'', use_pep517 lockfile),
           (''build_isolation'', JBool (build_isolation lockfile)),
           (''transitive'', JBool (transitive lockfile)),
           (''locked_resolves'',
              JList (map (locked_resolve_json ext path_mappings) (locked_resolves lockfile))),
           (''path_mappings'',
              JObj (dict_of (map (\<lambda>path_mapping.
                                    (pm_name path_mapping, opt_str (pm_description path_mapping)))
                               path_mappings)))]"

subsection \<open>An instance of the interface\<close>

text \<open>
  Modelled from the spec: the Path Mapping Resolver of section 4.1, whose module
  \<open>pex.resolve.path_mappings\<close> is not among the sources. \<open>maybe_reify\<close> substitutes the
  concrete path for each occurrence of a mapping's placeholder \<open>${name}\<close>, and
  \<open>maybe_canonicalize\<close> replaces each occurrence of a mapping's concrete path by its
  placeholder; a mapping without a destination changes nothing. \<open>replace\<close> is Python's
  \<open>str.replace\<close>.
\<close>

fun replace :: "string \<Rightarrow> string \<Rightarrow> string \<Rightarrow> string" where
  "replace old new [] = (if old = [] then new else [])"
| "replace old new (c # cs) =
     (if old = [] then new @ c # replace old new cs
      else if prefix old (c # cs) then new @ replace old new (drop (length old) (c # cs))
      else c # replace old new cs)"

definition placeholder :: "string \<Rightarrow> string" where
  "placeholder n = ''${'' @ n @ ''}''"

definition spec_maybe_reify :: "PathMappings \<Rightarrow> string \<Rightarrow> string" where
  "spec_maybe_reify path_mappings s =
     foldl (\<lambda>t m. case pm_destination m of
                     None \<Rightarrow> t
                   | Some d \<Rightarrow> replace (placeholder (pm_name m)) d t)
       s path_mappings"

definition spec_maybe_canonicalize :: "PathMappings \<Rightarrow> string \<Rightarrow> string" where
  "spec_maybe_canonicalize path_mappings s =
     foldl (\<lambda>t m. case pm_destination m of
                     None \<Rightarrow> t
                   | Some d \<Rightarrow> replace d (placeholder (pm_name m)) t)
       s path_mappings"

text \<open>
  An instance to evaluate the codec at concrete documents. An opaque object is its
  canonical text; a requirement string is accepted unless it is empty; each enum has a
  small vocabulary; locked requirements are ordered by project name, then version.
\<close>

fun vocabulary :: "enum_type \<Rightarrow> string list" where
  "vocabulary LockStyle = [''strict'', ''sources'', ''universal'']"
| "vocabulary TargetSystem = [''linux'', ''mac'', ''windows'']"
| "vocabulary PipVersion = [''20.3.4-patched'', ''22.2.2'']"
| "vocabulary ResolverVersion = [''pip-legacy-resolver'', ''pip-2020-resolver'']"

definition ext0 :: "string ext" where
  "ext0 =
     \<lparr> Requirement_parse = (\<lambda>s. if s = [] then Inl ''empty requirement'' else Inr s),
       SpecifierSet_new = Inr,
       ProjectName_new = Inr,
       Version_new = Inr,
       for_value = (\<lambda>t v. case v of
                      JStr s \<Rightarrow> if s \<in> set (vocabulary t) then Inr s else Inl ''unknown value''
                    | _ \<Rightarrow> Inl ''unknown value''),
       str_of = (\<lambda>s. s),
       bool_of = (\<lambda>s. s \<noteq> []),
       maybe_reify = spec_maybe_reify,
       maybe_canonicalize = spec_maybe_canonicalize,
       default_pip_version = Some ''20.3.4-patched'',
       lt = (\<lambda>a b. project_name (pin a) < project_name (pin b)
                \<or> (project_name (pin a) = project_name (pin b)
                     \<and> version (pin a) < version (pin b))) \<rparr>"

subsection \<open>Example documents\<close>

text \<open>
  The required top-level keys of a lock file, with no locked resolve; \<open>doc_with\<close> sets
  one further key, or replaces one.
\<close>

definition base_entries :: "(string \<times> json) list" where
  "base_entries =
     [(''pex_version'', JStr ''2.1.100''),
      (''style'', JStr ''strict''),
      (''requires_python'', JList [JStr ''>=3.7'']),
      (''resolver_version'', JStr ''pip-2020-resolver''),
      (''requirements'', JList [JStr ''ansicolors'']),
      (''constraints'', JList []),
      (''allow_prereleases'', JBool False),
      (''allow_wheels'', JBool True),
      (''allow_builds'', JBool True),
      (''prefer_older_binary'', JBool False),
      (''build_isolation'', JBool True),
      (''transitive'', JBool True),
      (''locked_resolves'', JList [])]"

definition doc_with :: "string \<Rightarrow> json \<Rightarrow> json" where
  "doc_with key v = JObj (AList.update key v base_entries)"

text \<open>A lock with one locked requirement, and a mapping of \<open>HOME\<close>.\<close>

definition example_requirement :: "string \<Rightarrow> string LockedRequirement" where
  "example_requirement u =
     \<lparr> pin = \<lparr> project_name = ''ansicolors'', version = ''1.1.8'' \<rparr>,
       req_requires_python = Some ''>=3.7'',
       requires_dists = [''six''],
       artifact = \<lparr> url = u, fingerprint = \<lparr> algorithm = ''sha256'', hash = ''00d2dde5'' \<rparr> \<rparr>,
       additional_artifacts = [] \<rparr>"

definition example_lock :: "string \<Rightarrow> string list \<Rightarrow> string Lockfile" where
  "example_lock u cs =
     \<lparr> pex_version = ''2.1.100'',
       style = ''strict'',
       requires_python = [JStr ''>=3.7''],
       target_systems = [''linux''],
       pip_version = ''22.2.2'',
       resolver_version = ''pip-2020-resolver'',
       requirements = [''ansicolors @ file:///home/u/ansicolors''],
       constraints = cs,
       allow_prereleases = False,
       allow_wheels = True,
       allow_builds = True,
       prefer_older_binary = False,
       use_pep517 = JNull,
       build_isolation = True,
       transitive = True,
       locked_resolves =
         [\<lparr> platform_tag =
              Some \<lparr> interpreter = ''cp39'', abi = ''cp39'', platform = ''linux_x86_64'' \<rparr>,
            locked_requirements = [example_requirement u] \<rparr>],
       source = ''<string>'' \<rparr>"

definition example_mappings :: PathMappings where
  "example_mappings =
     [\<lparr> pm_name = ''HOME'', pm_destination = Some ''/home/u'',
        pm_description = Some ''the home directory'' \<rparr>]"

subsection \<open>Lockfiles that serializing and parsing restores\<close>

text \<open>
  What the round trip needs of a \<open>Lockfile\<close> and the path mappings:
  \<^item> looking up the text of each enum value in its enum gives the value back, and the text
    of \<open>pip_version\<close> is not empty (an empty one is replaced by the default);
  \<^item> parsing the reified canonical text of each requirement and each \<open>requires_dists\<close>
    entry gives it back, and reifying the canonical form of each artifact url gives the url
    back;
  \<^item> the path mappings leave the text of each constraint as it is, canonicalized or
    reified, and parsing that text gives the constraint back;
  \<^item> the project name and the version of each locked requirement are constructed back from
    their texts, and a \<open>requires_python\<close> that is present is true, has a non-empty text
    and is constructed back from it;
  \<^item> the locked requirements of each locked resolve are in the order of \<open>SortedTuple\<close>.
\<close>

definition requirement_restored :: "'x ext \<Rightarrow> PathMappings \<Rightarrow> 'x \<Rightarrow> bool" where
  "requirement_restored ext path_mappings r \<longleftrightarrow>
     Requirement_parse ext
       (maybe_reify ext path_mappings (maybe_canonicalize ext path_mappings (str_of ext r)))
       = Inr r"

definition constraint_restored :: "'x ext \<Rightarrow> PathMappings \<Rightarrow> 'x \<Rightarrow> bool" where
  "constraint_restored ext path_mappings c \<longleftrightarrow>
     maybe_canonicalize ext path_mappings (str_of ext c) = str_of ext c
     \<and> maybe_reify ext path_mappings (str_of ext c) = str_of ext c
     \<and> Requirement_parse ext (str_of ext c) = Inr c"

definition enum_restored :: "'x ext \<Rightarrow> enum_type \<Rightarrow> 'x \<Rightarrow> bool" where
  "enum_restored ext t v \<longleftrightarrow> for_value ext t (JStr (str_of ext v)) = Inr v"

definition artifact_restored :: "'x ext \<Rightarrow> PathMappings \<Rightarrow> Artifact \<Rightarrow> bool" where
  "artifact_restored ext path_mappings a \<longleftrightarrow>
     maybe_reify ext path_mappings (maybe_canonicalize ext path_mappings (url a)) = url a"

definition locked_requirement_restored ::
  "'x ext \<Rightarrow> PathMappings \<Rightarrow> 'x LockedRequirement \<Rightarrow> bool" where
  "locked_requirement_restored ext path_mappings r \<longleftrightarrow>
     ProjectName_new ext (str_of ext (project_name (pin r))) = Inr (project_name (pin r))
     \<and> Version_new ext (str_of ext (version (pin r))) = Inr (version (pin r))
     \<and> (case req_requires_python r of
          None \<Rightarrow> True
        | Some spec \<Rightarrow>
            bool_of ext spec \<and> str_of ext spec \<noteq> []
            \<and> SpecifierSet_new ext (str_of ext spec) = Inr spec)
     \<and> list_all (requirement_restored ext path_mappings) (requires_dists r)
     \<and> list_all (artifact_restored ext path_mappings) (iter_artifacts r)"

definition locked_resolve_restored ::
  "'x ext \<Rightarrow> PathMappings \<Rightarrow> 'x LockedResolve \<Rightarrow> bool" where
  "locked_resolve_restored ext path_mappings lr \<longleftrightarrow>
     SortedTuple (lt ext) (locked_requirements lr) = locked_requirements lr
     \<and> list_all (locked_requirement_restored ext path_mappings) (locked_requirements lr)"

definition restored :: "'x ext \<Rightarrow> PathMappings \<Rightarrow> 'x Lockfile \<Rightarrow> bool" where
  "restored ext path_mappings lockfile \<longleftrightarrow>
     enum_restored ext LockStyle (style lockfile)
     \<and> list_all (enum_restored ext TargetSystem) (target_systems lockfile)
     \<and> enum_restored ext PipVersion (pip_version lockfile)
     \<and> str_of ext (pip_version lockfile) \<noteq> []
     \<and> enum_restored ext ResolverVersion (resolver_version lockfile)
     \<and> list_all (requirement_restored ext path_mappings) (requirements lockfile)
     \<and> list_all (constraint_restored ext path_mappings) (constraints lockfile)
     \<and> list_all (locked_resolve_restored ext path_mappings) (locked_resolves lockfile)"

section \<open>Properties of digest\_local\_project\<close>

lemma listdir_names:
  assumes "listdir wd files d = Inr listing" and "n \<in> set listing"
  shows "n \<noteq> [] \<and> \<not> isabs n"
proof -
  from assms have ne: "n \<noteq> []"
    and "n \<in> set (List.map_filter (entry_name (abspath wd d)) files)"
    by (auto simp: listdir_def Let_def split: if_splits)
  then obtain p where "entry_name (abspath wd d) p = Some n"
    by (auto simp: List.map_filter_def)
  then have "n = takeWhile (\<lambda>c. c \<noteq> CHR ''/'') (drop (length (with_sep (abspath wd d))) p)"
    by (auto simp: entry_name_def split: if_splits)
  then have "CHR ''/'' \<notin> set n"
    by (metis (mono_tags, lifting) set_takeWhileD)
  with ne show ?thesis
    by (cases n) (auto simp: isabs_def)
qed

lemma extract_dir_nonempty: "extract_dir env dest_dir \<noteq> []"
  by (auto simp: extract_dir_def join_def isabs_def split: option.splits)

lemma join_abs_left:
  assumes "isabs e"
  shows "join e (join e n) = join e n"
proof -
  from assms have "isabs (join e n)"
    by (cases e) (auto simp: join_def isabs_def)
  then show ?thesis
    by (simp add: join_def)
qed

lemma join_rel_left:
  assumes "\<not> isabs e" and "e \<noteq> []" and "\<not> isabs n"
  shows "join e (join e n) = with_sep e @ with_sep e @ n"
  using assms by (cases e) (auto simp: join_def isabs_def with_sep_def)

lemma join_rel:
  assumes "e \<noteq> []" and "\<not> isabs n"
  shows "join e n = with_sep e @ n"
  using assms by (auto simp: join_def with_sep_def endswith_sep_def)

text \<open>
  C3. The guard of \<open>safe_extract\<close> compares the normalised absolute paths with
  \<open>os.path.commonprefix\<close>, which works character by character: an entry whose destination
  is a sibling of the extraction root that shares the root's name as a string prefix passes
  the guard. For the archive with the members \<open>proj/setup.py\<close> and \<open>../outside.txt\<close>
  extracted into \<open>/srv/out\<close>, the call returns normally and has written
  \<open>/srv/outside.txt\<close>, which is not inside \<open>/srv/out\<close>.
\<close>

theorem C3_prefix_sibling_escapes:
  "digest_local_project (env0 [''proj/setup.py'', ''../outside.txt'']) [] ''/src/proj'' 0
       (Some ''/srv/out'')
     = (Returned_path ''/srv/out/proj'' 1,
        [''/srv'', ''/srv/out'', ''/srv/out/proj'', ''/srv/out/proj/setup.py'',
         ''/srv/outside.txt''])
   \<and> is_within_directory ''/work'' ''/srv/out'' (join ''/srv/out'' ''../outside.txt'')
   \<and> \<not> inside ''/srv/out'' ''/srv/outside.txt''"
  by code_simp

lemma double_join:
  assumes "listdir wd files' (extract_dir env dest_dir) = Inr [name]"
  shows "(join (extract_dir env dest_dir) (join (extract_dir env dest_dir) name)
            = join (extract_dir env dest_dir) name
          \<longleftrightarrow> isabs (extract_dir env dest_dir))
       \<and> (\<not> isabs (extract_dir env dest_dir) \<longrightarrow>
            join (extract_dir env dest_dir) name = with_sep (extract_dir env dest_dir) @ name
          \<and> join (extract_dir env dest_dir) (join (extract_dir env dest_dir) name)
              = with_sep (extract_dir env dest_dir) @ with_sep (extract_dir env dest_dir) @ name)"
proof -
  let ?e = "extract_dir env dest_dir"
  from listdir_names [OF assms] have n: "name \<noteq> []" "\<not> isabs name" by simp_all
  have e: "?e \<noteq> []" by (rule extract_dir_nonempty)
  have iff: "join ?e (join ?e name) = join ?e name \<longleftrightarrow> isabs ?e"
  proof
    assume eq: "join ?e (join ?e name) = join ?e name"
    show "isabs ?e"
    proof (rule ccontr)
      assume rel: "\<not> isabs ?e"
      from join_rel_left [OF rel e n(2)] join_rel [OF e n(2)] eq
      have "with_sep ?e @ with_sep ?e @ name = with_sep ?e @ name" by simp
      then have "with_sep ?e = []" by simp
      with e show False by (simp add: with_sep_def split: if_splits)
    qed
  next
    assume "isabs ?e"
    then show "join ?e (join ?e name) = join ?e name" by (rule join_abs_left)
  qed
  have rel: "\<not> isabs ?e \<longrightarrow> join ?e name = with_sep ?e @ name
          \<and> join ?e (join ?e name) = with_sep ?e @ with_sep ?e @ name"
    using join_rel_left [OF _ e n(2)] join_rel [OF e n(2)] by simp
  from iff rel show ?thesis by blast
qed

text \<open>
  C10. The call returns a path exactly when the build gives an archive, \<open>safe_extract\<close>
  passes and the extraction directory then lists one entry, \<open>name\<close>; the path is
  \<open>os.path.join(extract_dir, project_dir)\<close> with
  \<open>project_dir = os.path.join(extract_dir, name)\<close>, the directory that is hashed. For
  such a \<open>name\<close> the result is \<open>project_dir\<close> exactly when the extraction directory is
  absolute; for a relative one it carries the extraction directory twice.
\<close>

theorem C10_double_join:
  "(fst (digest_local_project env files directory digest dest_dir) = Returned_path p d'
      \<longleftrightarrow>
    (\<exists>members files' name.
        build_sdist env directory (join (td env) ''dists'') = Inr members
      \<and> safe_extract (cwd env) files members (extract_dir env dest_dir) = Inr files'
      \<and> listdir (cwd env) files' (extract_dir env dest_dir) = Inr [name]
      \<and> p = join (extract_dir env dest_dir) (join (extract_dir env dest_dir) name)
      \<and> d' = dir_hash env files' (join (extract_dir env dest_dir) name) digest))
   \<and> (\<forall>files' name.
        listdir (cwd env) files' (extract_dir env dest_dir) = Inr [name] \<longrightarrow>
          (join (extract_dir env dest_dir) (join (extract_dir env dest_dir) name)
             = join (extract_dir env dest_dir) name
           \<longleftrightarrow> isabs (extract_dir env dest_dir))
        \<and> (\<not> isabs (extract_dir env dest_dir) \<longrightarrow>
             join (extract_dir env dest_dir) name = with_sep (extract_dir env dest_dir) @ name
           \<and> join (extract_dir env dest_dir) (join (extract_dir env dest_dir) name)
               = with_sep (extract_dir env dest_dir) @ with_sep (extract_dir env dest_dir)
                   @ name))"
proof (rule conjI)
  show "fst (digest_local_project env files directory digest dest_dir) = Returned_path p d'
      \<longleftrightarrow>
    (\<exists>members files' name.
        build_sdist env directory (join (td env) ''dists'') = Inr members
      \<and> safe_extract (cwd env) files members (extract_dir env dest_dir) = Inr files'
      \<and> listdir (cwd env) files' (extract_dir env dest_dir) = Inr [name]
      \<and> p = join (extract_dir env dest_dir) (join (extract_dir env dest_dir) name)
      \<and> d' = dir_hash env files' (join (extract_dir env dest_dir) name) digest)"
    by (auto simp: digest_local_project_def Let_def split: sum.splits list.splits)
next
  show "\<forall>files' name.
        listdir (cwd env) files' (extract_dir env dest_dir) = Inr [name] \<longrightarrow>
          (join (extract_dir env dest_dir) (join (extract_dir env dest_dir) name)
             = join (extract_dir env dest_dir) name
           \<longleftrightarrow> isabs (extract_dir env dest_dir))
        \<and> (\<not> isabs (extract_dir env dest_dir) \<longrightarrow>
             join (extract_dir env dest_dir) name = with_sep (extract_dir env dest_dir) @ name
           \<and> join (extract_dir env dest_dir) (join (extract_dir env dest_dir) name)
               = with_sep (extract_dir env dest_dir) @ with_sep (extract_dir env dest_dir)
                   @ name)"
    by (intro allI impI) (rule double_join)
qed

theorem C10_double_join_witness:
  "fst (digest_local_project (env0 [''proj/setup.py'']) [] ''/src/proj'' 0 (Some ''out''))
     = Returned_path ''out/out/proj'' 1
   \<and> listdir ''/work'' [''/work/out'', ''/work/out/proj'', ''/work/out/proj/setup.py''] ''out''
     = Inr [''proj'']
   \<and> join ''out'' ''proj'' = ''out/proj''
   \<and> join ''out'' (join ''out'' ''proj'') \<noteq> join ''out'' ''proj''
   \<and> \<not> isabs ''out''"
proof -
  let ?env = "env0 [''proj/setup.py'']"
  let ?files = "[''/work/out'', ''/work/out/proj'', ''/work/out/proj/setup.py'']"
  have b: "build_sdist ?env ''/src/proj'' (join (td ?env) ''dists'') = Inr [''proj/setup.py'']"
    by (simp add: env0_def)
  have e: "extract_dir ?env (Some ''out'') = ''out''" and c: "cwd ?env = ''/work''"
    by (simp_all add: extract_dir_def env0_def)
  have x: "safe_extract ''/work'' [] [''proj/setup.py''] ''out'' = Inr ?files"
    by code_simp
  have l: "listdir ''/work'' ?files ''out'' = Inr [''proj'']"
    by code_simp
  have h: "dir_hash ?env ?files (join ''out'' ''proj'') 0 = 1"
    by (simp add: env0_def)
  have j: "join ''out'' ''proj'' = ''out/proj''" "join ''out'' ''out/proj'' = ''out/out/proj''"
    "\<not> isabs ''out''"
    by (simp_all add: join_def isabs_def endswith_sep_def)
  note t = C10_double_join [of ?env "[]" "''/src/proj''" "0::nat" "Some ''out''"
      "''out/out/proj''" "1::nat"]
  have run: "fst (digest_local_project ?env [] ''/src/proj'' 0 (Some ''out''))
     = Returned_path ''out/out/proj'' 1"
    using t b x l h j unfolding e c by auto
  have neq: "join ''out'' (join ''out'' ''proj'') \<noteq> join ''out'' ''proj''"
    using t l j(3) unfolding e c by blast
  from run l j neq show ?thesis by simp
qed

section \<open>Properties of the codec\<close>

subsection \<open>Sequencing and loops\<close>

lemma and_then_Inr [simp]: "and_then (Inr x) f = f x"
  by (simp add: and_then_def)

lemma and_then_Inl [simp]: "and_then (Inl e) f = Inl e"
  by (simp add: and_then_def)

lemma and_then_eq_Inr:
  "and_then m f = Inr y \<longleftrightarrow> (\<exists>x. m = Inr x \<and> f x = Inr y)"
  by (cases m) simp_all

lemma traverse_InrD:
  assumes "traverse f i xs = Inr ys"
  shows "length ys = length xs \<and> (\<forall>k < length xs. f (i + k) (xs ! k) = Inr (ys ! k))"
  using assms
proof (induction xs arbitrary: i ys)
  case Nil
  then show ?case by simp
next
  case (Cons x xs)
  from Cons.prems obtain y ys' where y: "f i x = Inr y"
    and ys': "traverse f (Suc i) xs = Inr ys'" and ys: "ys = y # ys'"
    by (auto simp: and_then_eq_Inr)
  from Cons.IH [OF ys'] have len: "length ys' = length xs"
    and nth: "\<And>k. k < length xs \<Longrightarrow> f (Suc i + k) (xs ! k) = Inr (ys' ! k)"
    by simp_all
  show ?case
  proof (intro conjI allI impI)
    show "length ys = length (x # xs)" using len ys by simp
  next
    fix k assume "k < length (x # xs)"
    then show "f (i + k) ((x # xs) ! k) = Inr (ys ! k)"
      using y ys nth by (cases k) simp_all
  qed
qed

lemma traverse_InlD:
  assumes "traverse f i xs = Inl e"
  shows "\<exists>k < length xs. f (i + k) (xs ! k) = Inl e"
  using assms
proof (induction xs arbitrary: i)
  case Nil
  then show ?case by simp
next
  case (Cons x xs)
  show ?case
  proof (cases "f i x")
    case (Inl e')
    with Cons.prems have "f (i + 0) ((x # xs) ! 0) = Inl e" by simp
    then show ?thesis by blast
  next
    case (Inr y)
    with Cons.prems have "traverse f (Suc i) xs = Inl e"
      by (cases "traverse f (Suc i) xs") simp_all
    from Cons.IH [OF this] obtain k where "k < length xs" "f (Suc i + k) (xs ! k) = Inl e"
      by blast
    then have "Suc k < length (x # xs)" "f (i + Suc k) ((x # xs) ! Suc k) = Inl e"
      by simp_all
    then show ?thesis by blast
  qed
qed

lemma traverse_cong_nth:
  assumes "length xs = length ys"
    and "\<And>k. k < length xs \<Longrightarrow> f (i + k) (xs ! k) = g (i + k) (ys ! k)"
  shows "traverse f i xs = traverse g i ys"
  using assms
proof (induction xs arbitrary: i ys)
  case Nil
  then show ?case by simp
next
  case (Cons x xs)
  from Cons.prems(1) obtain y ys' where ys: "ys = y # ys'" and len: "length xs = length ys'"
    by (cases ys) auto
  from Cons.prems(2) [of 0] ys have hd: "f i x = g i y" by simp
  have "traverse f (Suc i) xs = traverse g (Suc i) ys'"
  proof (rule Cons.IH [OF len])
    fix k assume "k < length xs"
    then have "Suc k < length (x # xs)" by simp
    from Cons.prems(2) [OF this] ys show "f (Suc i + k) (xs ! k) = g (Suc i + k) (ys' ! k)"
      by simp
  qed
  with hd ys show ?case by simp
qed

lemma traverse_map_id:
  assumes "\<And>k x. x \<in> set xs \<Longrightarrow> f k (g x) = Inr x"
  shows "traverse f i (map g xs) = Inr xs"
  using assms by (induction xs arbitrary: i) simp_all

subsection \<open>The typed accessor\<close>

lemma get_JObj:
  "get src key t (JObj kvs) path optional =
     (case map_of kvs key of
        None \<Rightarrow> if optional then Inr JNull else Inl (ParseError (MissingKey path src key))
      | Some v \<Rightarrow>
          if \<not> optional \<and> \<not> isinstance v t
          then Inl (ParseError (WrongType path key src (pytype_name t) (type_name v) v))
          else Inr v)"
  by (simp add: get_def)

lemma get_required_Inr:
  assumes "get src key t data path False = Inr v"
  shows "\<exists>kvs. data = JObj kvs \<and> map_of kvs key = Some v \<and> isinstance v t"
  using assms by (auto simp: get_def split: json.splits option.splits if_splits)

lemma isinstance_T_list: "isinstance v T_list \<longleftrightarrow> (\<exists>xs. v = JList xs)"
  by (cases v) simp_all


lemma set_keys [simp]: "set (keys kvs) = fst ` set kvs"
  by (simp add: keys_def)

lemma hashable_JStr: "list_all hashable (map JStr ks)"
  by (induction ks) simp_all

subsection \<open>The path mapping check\<close>

text \<open>
  C5. A document whose \<open>"path_mappings"\<close> object declares a name that the caller's path
  mappings do not supply makes \<open>loads\<close> raise \<open>PathMappingError\<close>, a \<open>ParseError\<close>, with
  the declared object and the set of the names not supplied. Nothing is assumed of the rest
  of the document: the check comes before any other key is read.
\<close>

theorem C5_path_mapping_gap:
  assumes "map_of kvs ''path_mappings'' = Some (JObj declared)"
    and "n \<in> fst ` set declared"
    and "n \<notin> pm_name ` set path_mappings"
  shows "loads ext (Inr (JObj kvs)) src path_mappings =
           Inl (PathMappingError (JObj declared)
                  {JStr k |k. k \<in> fst ` set declared \<and> k \<notin> pm_name ` set path_mappings})
         \<and> is_ParseError (PathMappingError (JObj declared)
                  {JStr k |k. k \<in> fst ` set declared \<and> k \<notin> pm_name ` set path_mappings})"
proof -
  let ?given = "map (\<lambda>mapping. JStr (pm_name mapping)) path_mappings"
  let ?unspecified = "filter (\<lambda>n. n \<notin> set ?given) (map JStr (keys declared))"
  from assms(2) have ne: "declared \<noteq> []" by auto
  from assms(2,3) have "JStr n \<in> set ?unspecified" by auto
  then have nonempty: "?unspecified \<noteq> []" by (metis empty_iff empty_set)
  have set_eq: "set ?unspecified =
      {JStr k |k. k \<in> fst ` set declared \<and> k \<notin> pm_name ` set path_mappings}"
    by auto
  have "check_path_mappings src path_mappings (JObj kvs) =
          Inl (PathMappingError (JObj declared) (set ?unspecified))"
    using assms(1) ne nonempty
    by (simp add: check_path_mappings_def get_JObj hashable_JStr Let_def del: set_filter)
  then have "check_path_mappings src path_mappings (JObj kvs) =
          Inl (PathMappingError (JObj declared)
            {JStr k |k. k \<in> fst ` set declared \<and> k \<notin> pm_name ` set path_mappings})"
    by (simp only: set_eq)
  then show ?thesis
    by (simp add: loads_def)
qed

theorem C5_path_mapping_gap_witness:
  "loads ext0 (Inr (JObj [(''path_mappings'', JObj [(''HOME'', JStr ''the home directory'')])]))
      ''<string>'' []
    = Inl (PathMappingError (JObj [(''HOME'', JStr ''the home directory'')]) {JStr ''HOME''})"
proof -
  have "{JStr k |k. k \<in> fst ` set [(''HOME'', JStr ''the home directory'')]
           \<and> k \<notin> pm_name ` set []} = {JStr ''HOME''}"
    by auto
  with C5_path_mapping_gap [of "[(''path_mappings'', JObj [(''HOME'', JStr ''the home directory'')])]"
      "[(''HOME'', JStr ''the home directory'')]" "''HOME''" "[]" ext0 "''<string>''"]
  show ?thesis by simp
qed

subsection \<open>A missing key\<close>

lemma get_requirements_missing:
  assumes "map_of kvs key = None"
  shows "get_requirements ext src M (JObj kvs) key = Inl (ParseError (MissingKey ''.'' src key))"
  using assms by (simp add: get_requirements_def get_JObj)

text \<open>
  C6, as amended. A document that lacks the top-level key \<open>"requirements"\<close> never parses.
  When the check of the path mappings and the parsing of \<open>"target_systems"\<close>, which come
  first, succeed, the error is the \<open>ParseError\<close> "The object at '.' in {source} did not
  have the expected key 'requirements'.", with the path \<open>.\<close> and the key
  \<open>requirements\<close>.
\<close>

theorem C6_missing_requirements:
  assumes "map_of kvs ''requirements'' = None"
  shows "(\<exists>e. loads ext (Inr (JObj kvs)) src M = Inl e)
       \<and> (check_path_mappings src M (JObj kvs) = Inr () \<longrightarrow>
          (\<exists>ts. get_target_systems ext src (JObj kvs) = Inr ts) \<longrightarrow>
          loads ext (Inr (JObj kvs)) src M
            = Inl (ParseError (MissingKey ''.'' src ''requirements'')))"
proof -
  note r = get_requirements_missing [OF assms, of ext src M]
  have spec: "loads ext (Inr (JObj kvs)) src M
            = Inl (ParseError (MissingKey ''.'' src ''requirements''))"
    if "check_path_mappings src M (JObj kvs) = Inr ()"
      and "get_target_systems ext src (JObj kvs) = Inr ts" for ts
    using that r by (simp add: loads_def)
  have "\<exists>e. loads ext (Inr (JObj kvs)) src M = Inl e"
  proof (cases "check_path_mappings src M (JObj kvs)")
    case (Inl e)
    then show ?thesis by (simp add: loads_def)
  next
    case (Inr u)
    show ?thesis
    proof (cases "get_target_systems ext src (JObj kvs)")
      case (Inl e)
      with Inr show ?thesis by (simp add: loads_def)
    next
      case Inr2: (Inr ts)
      with Inr r show ?thesis by (simp add: loads_def)
    qed
  qed
  with spec show ?thesis by blast
qed

theorem C6_missing_requirements_witness:
  "map_of (AList.delete ''requirements'' base_entries) ''requirements'' = None
   \<and> check_path_mappings ''<string>'' [] (JObj (AList.delete ''requirements'' base_entries)) = Inr ()
   \<and> get_target_systems ext0 ''<string>'' (JObj (AList.delete ''requirements'' base_entries)) = Inr []
   \<and> loads ext0 (Inr (JObj (AList.delete ''requirements'' base_entries))) ''<string>'' []
       = Inl (ParseError (MissingKey ''.'' ''<string>'' ''requirements''))"
proof -
  have a: "map_of (AList.delete ''requirements'' base_entries) ''requirements'' = None"
    by (simp add: base_entries_def)
  have b: "check_path_mappings ''<string>'' [] (JObj (AList.delete ''requirements'' base_entries))
      = Inr ()"
    by (simp add: base_entries_def check_path_mappings_def get_JObj keys_def)
  have c: "get_target_systems ext0 ''<string>'' (JObj (AList.delete ''requirements'' base_entries))
      = Inr []"
    by (simp add: base_entries_def get_target_systems_def get_JObj)
  from C6_missing_requirements [OF a, of ext0 "''<string>''" "[]"] a b c show ?thesis
    by simp
qed

text \<open>
  The claim as stated fails where an earlier step raises: this document lacks
  \<open>"requirements"\<close> and declares a path mapping that the caller does not supply, and
  \<open>loads\<close> raises \<open>PathMappingError\<close>, which has no path.
\<close>

theorem C6_path_mapping_error_first:
  "map_of [(''pex_version'', JStr ''2.1.100''),
           (''path_mappings'', JObj [(''HOME'', JStr ''the home directory'')])]
      ''requirements'' = None
   \<and> loads ext0
       (Inr (JObj [(''pex_version'', JStr ''2.1.100''),
                   (''path_mappings'', JObj [(''HOME'', JStr ''the home directory'')])]))
       ''<string>'' []
     = Inl (PathMappingError (JObj [(''HOME'', JStr ''the home directory'')]) {JStr ''HOME''})
   \<and> PathMappingError (JObj [(''HOME'', JStr ''the home directory'')]) {JStr ''HOME''}
       \<noteq> ParseError (MissingKey ''.'' ''<string>'' ''requirements'')"
  by (simp add: loads_def check_path_mappings_def get_JObj keys_def)

subsection \<open>What a successful parse has read\<close>

lemma loads_InrD:
  assumes "loads ext (Inr data) src M = Inr L"
  shows "\<exists>lrs. get src ''locked_resolves'' T_list data ''.'' False = Inr (JList lrs)
           \<and> traverse (get_locked_resolve ext src M) 0 lrs = Inr (locked_resolves L)"
proof -
  from assms obtain v where g: "get src ''locked_resolves'' T_list data ''.'' False = Inr v"
    and t: "traverse (get_locked_resolve ext src M) 0 (the_list v) = Inr (locked_resolves L)"
    by (auto simp: loads_def and_then_eq_Inr)
  from get_required_Inr [OF g] obtain lrs where "v = JList lrs"
    by (auto simp: isinstance_T_list)
  with g t show ?thesis by auto
qed



subsection \<open>Locked requirements without artifacts\<close>










subsection \<open>Platform tags\<close>







subsection \<open>An empty platform tag\<close>

lemma get_other_key:
  assumes "key \<noteq> key'"
  shows "get src key t (JObj (AList.update key' v kvs)) path optional
           = get src key t (JObj kvs) path optional"
  using assms by (simp add: get_JObj update_conv')

lemma get_updated_key:
  "get src key T_list (JObj (AList.update key (JList xs) kvs)) path False = Inr (JList xs)"
  by (simp add: get_JObj update_conv')

lemma get_not_BadTag: "get src key t data path optional \<noteq> Inl (ParseError (BadTag p c ts v))"
  by (auto simp: get_def split: json.splits option.splits)

lemma parse_requirement_not_BadTag:
  "parse_requirement ext M raw path \<noteq> Inl (ParseError (BadTag p c ts v))"
  by (auto simp: parse_requirement_def split: json.splits sum.splits)

lemma parse_version_specifier_not_BadTag:
  "parse_version_specifier ext raw path \<noteq> Inl (ParseError (BadTag p c ts v))"
  by (auto simp: parse_version_specifier_def split: json.splits sum.splits)

lemma and_then_neq:
  assumes "m \<noteq> Inl E" and "\<And>x. f x \<noteq> Inl E"
  shows "and_then m f \<noteq> Inl E"
  using assms by (cases m) simp_all

lemma traverse_neq:
  assumes "\<And>i x. f i x \<noteq> Inl E"
  shows "traverse f i xs \<noteq> Inl E"
  using assms traverse_InlD by blast

lemma if_neq:
  assumes "c \<Longrightarrow> a \<noteq> E" and "\<not> c \<Longrightarrow> b \<noteq> E"
  shows "(if c then a else b) \<noteq> E"
  using assms by simp

lemma uncaught_neq:
  "(case m of Inl e \<Rightarrow> Inl (Uncaught e) | Inr n \<Rightarrow> Inr n) \<noteq> Inl (ParseError msg)"
  by (cases m) simp_all

lemma get_artifact_not_BadTag:
  "get_artifact ext src M req_path i art \<noteq> Inl (ParseError (BadTag p c ts v))"
  unfolding get_artifact_def Let_def
  by (intro and_then_neq get_not_BadTag) simp

lemma get_locked_requirement_not_BadTag:
  "get_locked_requirement ext src M lock_path j req \<noteq> Inl (ParseError (BadTag p c ts v))"
  unfolding get_locked_requirement_def Let_def
  by (intro and_then_neq traverse_neq if_neq get_not_BadTag uncaught_neq
      parse_requirement_not_BadTag parse_version_specifier_not_BadTag get_artifact_not_BadTag)
    simp_all

lemma get_locked_resolve_empty_tag:
  assumes "map_of lkvs ''platform_tag'' = Some (JList [])"
  shows "get_locked_resolve ext src M k (JObj lkvs)
           = get_locked_resolve ext src M k (JObj (AList.update ''platform_tag'' JNull lkvs))"
    and "get_locked_resolve ext src M k (JObj lkvs) = Inr lr \<Longrightarrow> platform_tag lr = None"
    and "get_locked_resolve ext src M k (JObj lkvs) \<noteq> Inl (ParseError (BadTag p c ts v))"
proof -
  show "get_locked_resolve ext src M k (JObj lkvs)
           = get_locked_resolve ext src M k (JObj (AList.update ''platform_tag'' JNull lkvs))"
    using assms by (simp add: get_locked_resolve_def get_JObj update_conv' Let_def)
  show "platform_tag lr = None" if "get_locked_resolve ext src M k (JObj lkvs) = Inr lr"
    using that assms
    by (auto simp: get_locked_resolve_def get_JObj Let_def and_then_eq_Inr)
  have "get src ''platform_tag'' T_list (JObj lkvs) (''.locked_resolves['' @ str_nat k @ '']'') True
          = Inr (JList [])"
    using assms by (simp add: get_JObj)
  then show "get_locked_resolve ext src M k (JObj lkvs) \<noteq> Inl (ParseError (BadTag p c ts v))"
    unfolding get_locked_resolve_def Let_def
    by (simp del: get_JObj)
      (intro and_then_neq traverse_neq get_not_BadTag get_locked_requirement_not_BadTag, simp)
qed

lemma loads_update_locked_resolves:
  assumes "map_of kvs ''locked_resolves'' = Some (JList lrs)"
    and "length lrs' = length lrs"
    and "\<And>i. i < length lrs \<Longrightarrow>
           get_locked_resolve ext src M i (lrs' ! i) = get_locked_resolve ext src M i (lrs ! i)"
  shows "loads ext (Inr (JObj (AList.update ''locked_resolves'' (JList lrs') kvs))) src M
           = loads ext (Inr (JObj kvs)) src M"
proof -
  let ?d = "JObj (AList.update ''locked_resolves'' (JList lrs') kvs)"
  have t: "traverse (get_locked_resolve ext src M) 0 lrs'
             = traverse (get_locked_resolve ext src M) 0 lrs"
    by (rule traverse_cong_nth) (use assms(2,3) in simp_all)
  have g: "get src ''locked_resolves'' T_list (JObj kvs) ''.'' False = Inr (JList lrs)"
    using assms(1) by (simp add: get_JObj)
  have c: "check_path_mappings src M ?d = check_path_mappings src M (JObj kvs)"
    by (simp add: check_path_mappings_def get_other_key)
  have ts: "get_target_systems ext src ?d = get_target_systems ext src (JObj kvs)"
    by (simp add: get_target_systems_def get_other_key)
  have r: "get_requirements ext src M ?d ''requirements''
             = get_requirements ext src M (JObj kvs) ''requirements''"
    "get_requirements ext src M ?d ''constraints''
             = get_requirements ext src M (JObj kvs) ''constraints''"
    by (simp_all add: get_requirements_def get_other_key)
  have e: "\<And>et key d. key \<noteq> ''locked_resolves'' \<Longrightarrow>
      get_enum_value ext src ?d et key ''.'' d = get_enum_value ext src (JObj kvs) et key ''.'' d"
    by (simp add: get_enum_value_def get_other_key)
  show ?thesis
    unfolding loads_def
    by (simp add: c ts r e get_other_key get_updated_key g t)
qed

text \<open>
  C9. A locked resolve whose \<open>"platform_tag"\<close> is the empty list is read as one whose
  \<open>"platform_tag"\<close> is \<open>null\<close>: \<open>loads\<close> gives the same result for the two documents, its
  \<open>LockedResolve\<close> has no platform tag, and parsing the locked resolve does not raise the
  \<open>ParseError\<close> on the number of the tag's components.
\<close>

theorem C9_empty_tag_is_absent:
  assumes "map_of kvs ''locked_resolves'' = Some (JList lrs)"
    and "k < length lrs" and "lrs ! k = JObj lkvs"
    and "map_of lkvs ''platform_tag'' = Some (JList [])"
  shows "loads ext (Inr (JObj kvs)) src M
           = loads ext
               (Inr (JObj (AList.update ''locked_resolves''
                  (JList (lrs[k := JObj (AList.update ''platform_tag'' JNull lkvs)])) kvs)))
               src M
       \<and> (\<forall>L. loads ext (Inr (JObj kvs)) src M = Inr L \<longrightarrow>
                platform_tag (locked_resolves L ! k) = None)
       \<and> (\<forall>p c ts v. get_locked_resolve ext src M k (lrs ! k)
                \<noteq> Inl (ParseError (BadTag p c ts v)))"
proof (intro conjI allI impI)
  let ?lrs' = "lrs[k := JObj (AList.update ''platform_tag'' JNull lkvs)]"
  have "loads ext (Inr (JObj (AList.update ''locked_resolves'' (JList ?lrs') kvs))) src M
          = loads ext (Inr (JObj kvs)) src M"
  proof (rule loads_update_locked_resolves [OF assms(1)])
    show "length ?lrs' = length lrs" by simp
    fix i assume "i < length lrs"
    show "get_locked_resolve ext src M i (?lrs' ! i) = get_locked_resolve ext src M i (lrs ! i)"
    proof (cases "i = k")
      case True
      with assms(2,3) get_locked_resolve_empty_tag(1) [OF assms(4), of ext src M k]
      show ?thesis by simp
    next
      case False
      then show ?thesis by simp
    qed
  qed
  then show "loads ext (Inr (JObj kvs)) src M
           = loads ext (Inr (JObj (AList.update ''locked_resolves'' (JList ?lrs') kvs))) src M"
    by simp
next
  fix L assume "loads ext (Inr (JObj kvs)) src M = Inr L"
  from loads_InrD [OF this] assms(1)
  have "traverse (get_locked_resolve ext src M) 0 lrs = Inr (locked_resolves L)"
    by (simp add: get_JObj)
  from traverse_InrD [OF this] assms(2,3)
  have "get_locked_resolve ext src M k (JObj lkvs) = Inr (locked_resolves L ! k)"
    by auto
  from get_locked_resolve_empty_tag(2) [OF assms(4) this]
  show "platform_tag (locked_resolves L ! k) = None" .
next
  fix p c ts v
  from get_locked_resolve_empty_tag(3) [OF assms(4), of ext src M k p c ts v] assms(3)
  show "get_locked_resolve ext src M k (lrs ! k) \<noteq> Inl (ParseError (BadTag p c ts v))"
    by simp
qed

theorem C9_empty_tag_is_absent_witness:
  "loads ext0
     (Inr (doc_with ''locked_resolves''
        (JList [JObj [(''platform_tag'', JList []), (''locked_requirements'', JList [])]])))
     ''<string>'' []
   = loads ext0
       (Inr (doc_with ''locked_resolves''
          (JList [JObj [(''platform_tag'', JNull), (''locked_requirements'', JList [])]])))
       ''<string>'' []
   \<and> (\<exists>L. loads ext0
     (Inr (doc_with ''locked_resolves''
        (JList [JObj [(''platform_tag'', JList []), (''locked_requirements'', JList [])]])))
     ''<string>'' [] = Inr L \<and> platform_tag (locked_resolves L ! 0) = None)"
proof -
  let ?lkvs = "[(''platform_tag'', JList []), (''locked_requirements'', JList [])]"
  let ?kvs = "AList.update ''locked_resolves'' (JList [JObj ?lkvs]) base_entries"
  let ?L = "\<lparr> pex_version = ''2.1.100'', style = ''strict'', requires_python = [JStr ''>=3.7''],
          target_systems = [], pip_version = ''20.3.4-patched'',
          resolver_version = ''pip-2020-resolver'', requirements = [''ansicolors''],
          constraints = [], allow_prereleases = False, allow_wheels = True,
          allow_builds = True, prefer_older_binary = False, use_pep517 = JNull,
          build_isolation = True, transitive = True,
          locked_resolves = [\<lparr> platform_tag = None, locked_requirements = [] \<rparr>],
          source = ''<string>'' \<rparr>"
  have look: "map_of ?kvs ''locked_resolves'' = Some (JList [JObj ?lkvs])"
    by (simp add: update_conv')
  have upd: "AList.update ''locked_resolves''
        (JList ([JObj ?lkvs][0 := JObj (AList.update ''platform_tag'' JNull ?lkvs)])) ?kvs
      = AList.update ''locked_resolves''
          (JList [JObj [(''platform_tag'', JNull), (''locked_requirements'', JList [])]])
          base_entries"
    by (simp add: base_entries_def)
  have run: "loads ext0 (Inr (JObj ?kvs)) ''<string>'' [] = Inr ?L"
    by code_simp
  note c9 = C9_empty_tag_is_absent [OF look, of 0 ?lkvs ext0 "''<string>''" "[]"]
  have eq: "loads ext0 (Inr (JObj ?kvs)) ''<string>'' []
      = loads ext0 (Inr (JObj (AList.update ''locked_resolves''
          (JList [JObj [(''platform_tag'', JNull), (''locked_requirements'', JList [])]])
          base_entries))) ''<string>'' []"
    using c9 unfolding upd by simp
  have tag: "platform_tag (locked_resolves ?L ! 0) = None"
    using c9 run by simp
  show ?thesis
    unfolding doc_with_def using eq run tag by blast
qed

subsection \<open>Optional keys and the constraints\<close>

text \<open>
  C4. For a required key the accessor raises the \<open>ParseError\<close> that names the path, the
  expected type, the actual type and the value; for an optional key it returns a value of
  any type unchecked. In this document \<open>"use_pep517"\<close> is the string \<open>"yes"\<close>: \<open>get\<close>
  returns it although \<open>bool\<close> is expected, and \<open>loads\<close> returns a \<open>Lockfile\<close> whose
  \<open>use_pep517\<close> is that string where the claim has it raise.
\<close>

theorem C4_optional_key_unchecked:
  "get ''<string>'' ''use_pep517'' T_bool (doc_with ''use_pep517'' (JStr ''yes'')) ''.'' True
     = Inr (JStr ''yes'')
   \<and> get ''<string>'' ''use_pep517'' T_bool (doc_with ''use_pep517'' (JStr ''yes'')) ''.'' False
     = Inl (ParseError
             (WrongType ''.'' ''use_pep517'' ''<string>'' ''bool'' ''str'' (JStr ''yes'')))
   \<and> loads ext0 (Inr (doc_with ''use_pep517'' (JStr ''yes''))) ''<string>'' []
     = Inr \<lparr> pex_version = ''2.1.100'', style = ''strict'', requires_python = [JStr ''>=3.7''],
            target_systems = [], pip_version = ''20.3.4-patched'',
            resolver_version = ''pip-2020-resolver'', requirements = [''ansicolors''],
            constraints = [], allow_prereleases = False, allow_wheels = True,
            allow_builds = True, prefer_older_binary = False, use_pep517 = JStr ''yes'',
            build_isolation = True, transitive = True, locked_resolves = [],
            source = ''<string>'' \<rparr>"
  by code_simp

text \<open>
  C2. \<open>as_json_data\<close> canonicalizes the requirements, the \<open>requires_dists\<close> and the
  artifact urls, and writes the constraints as \<open>str(constraint)\<close>, uncanonicalized. With
  \<open>HOME\<close> mapped to \<open>/home/u\<close>, the requirement and the url below \<open>/home/u\<close> are written
  with \<open>${HOME}\<close> and the constraint below \<open>/home/u\<close> keeps the concrete path, which
  canonicalization would replace.
\<close>

theorem C2_constraints_not_canonicalized:
  "as_json_data ext0
     (example_lock ''file:///home/u/ansicolors-1.1.8.whl'' [''six @ file:///home/u/six''])
     example_mappings
   = JObj
      [(''pex_version'', JStr ''2.1.100''), (''style'', JStr ''strict''),
       (''requires_python'', JList [JStr ''>=3.7'']),
       (''target_systems'', JList [JStr ''linux'']),
       (''pip_version'', JStr ''22.2.2''),
       (''resolver_version'', JStr ''pip-2020-resolver''),
       (''requirements'', JList [JStr ''ansicolors @ file://${HOME}/ansicolors'']),
       (''constraints'', JList [JStr ''six @ file:///home/u/six'']),
       (''allow_prereleases'', JBool False), (''allow_wheels'', JBool True),
       (''allow_builds'', JBool True), (''prefer_older_binary'', JBool False),
       (''use_pep517'', JNull), (''build_isolation'', JBool True),
       (''transitive'', JBool True),
       (''locked_resolves'',
        JList
         [JObj
           [(''platform_tag'', JList [JStr ''cp39'', JStr ''cp39'', JStr ''linux_x86_64'']),
            (''locked_requirements'',
             JList
              [JObj
                [(''project_name'', JStr ''ansicolors''),
                 (''version'', JStr ''1.1.8''),
                 (''requires_dists'', JList [JStr ''six'']),
                 (''requires_python'', JStr ''>=3.7''),
                 (''artifacts'',
                  JList
                   [JObj
                     [(''url'', JStr ''file://${HOME}/ansicolors-1.1.8.whl''),
                      (''algorithm'', JStr ''sha256''),
                      (''hash'', JStr ''00d2dde5'')]])]])]]),
       (''path_mappings'', JObj [(''HOME'', JStr ''the home directory'')])]
   \<and> maybe_canonicalize ext0 example_mappings ''six @ file:///home/u/six''
       = ''six @ file://${HOME}/six''"
  by code_simp

subsection \<open>The round trip\<close>

lemma dom_foldl_update:
  "fst ` set (foldl (\<lambda>d (k, v). AList.update k v d) d ps) = fst ` set d \<union> fst ` set ps"
proof (induction ps arbitrary: d)
  case Nil
  then show ?case by simp
next
  case (Cons p ps)
  obtain k v where p: "p = (k, v)" by (cases p)
  show ?case
    by (auto simp: Cons.IH p dom_update)
qed

lemma dom_dict_of: "fst ` set (dict_of ps) = fst ` set ps"
  by (simp add: dict_of_def dom_foldl_update)

lemma check_path_mappings_as_json_data:
  "check_path_mappings src M (as_json_data ext L M) = Inr ()"
proof -
  let ?D = "dict_of (map (\<lambda>path_mapping.
                (pm_name path_mapping, opt_str (pm_description path_mapping))) M)"
  have g: "get src ''path_mappings'' T_dict (as_json_data ext L M) ''.'' True = Inr (JObj ?D)"
    by (simp add: as_json_data_def get_JObj)
  have dom: "fst ` set ?D = pm_name ` set M"
    by (simp add: dom_dict_of image_image)
  have none: "filter (\<lambda>n. n \<notin> set (map (\<lambda>mapping. JStr (pm_name mapping)) M))
                (map JStr (keys D')) = []"
    if "fst ` set D' \<subseteq> pm_name ` set M" for D' :: "(string \<times> json) list"
    using that by (auto simp: filter_empty_conv)
  show ?thesis
  proof (cases "?D = []")
    case True
    then show ?thesis
      using none [of "[]"]
      by (simp add: check_path_mappings_def g hashable_JStr Let_def keys_def del: set_map)
  next
    case False
    then show ?thesis
      using none [of ?D] dom
      by (simp add: check_path_mappings_def g hashable_JStr Let_def del: set_map)
  qed
qed

lemma get_target_systems_as_json_data:
  assumes "list_all (enum_restored ext TargetSystem) (target_systems L)"
  shows "get_target_systems ext src (as_json_data ext L M) = Inr (target_systems L)"
proof -
  have g: "get src ''target_systems'' T_list (as_json_data ext L M) ''.'' True
      = Inr (JList (map (\<lambda>target_system. JStr (str_of ext target_system)) (target_systems L)))"
    by (simp add: as_json_data_def get_JObj)
  have t: "traverse
        (\<lambda>index target_system. parse_enum_value ext TargetSystem target_system
            (''.target_systems['' @ str_nat index @ '']''))
        0 (map (\<lambda>target_system. JStr (str_of ext target_system)) (target_systems L))
      = Inr (target_systems L)"
    by (rule traverse_map_id)
      (use assms in \<open>auto simp: list_all_iff enum_restored_def parse_enum_value_def\<close>)
  show ?thesis
    using t by (cases "target_systems L") (simp_all add: get_target_systems_def g)
qed

lemma get_requirements_as_json_data:
  assumes "list_all (requirement_restored ext M) (requirements L)"
  shows "get_requirements ext src M (as_json_data ext L M) ''requirements''
           = Inr (requirements L)"
proof -
  have g: "get src ''requirements'' T_list (as_json_data ext L M) ''.'' False
      = Inr (JList (map (\<lambda>req. JStr (maybe_canonicalize ext M (str_of ext req)))
                      (requirements L)))"
    by (simp add: as_json_data_def get_JObj)
  have "traverse
        (\<lambda>index req. parse_requirement ext M req
            (''.'' @ ''requirements'' @ ''['' @ str_nat index @ '']''))
        0 (map (\<lambda>req. JStr (maybe_canonicalize ext M (str_of ext req))) (requirements L))
      = Inr (requirements L)"
    by (rule traverse_map_id)
      (use assms in \<open>auto simp: list_all_iff requirement_restored_def parse_requirement_def\<close>)
  then show ?thesis
    by (simp add: get_requirements_def g)
qed

lemma get_constraints_as_json_data:
  assumes "list_all (constraint_restored ext M) (constraints L)"
  shows "get_requirements ext src M (as_json_data ext L M) ''constraints''
           = Inr (constraints L)"
proof -
  have g: "get src ''constraints'' T_list (as_json_data ext L M) ''.'' False
      = Inr (JList (map (\<lambda>constraint. JStr (str_of ext constraint)) (constraints L)))"
    by (simp add: as_json_data_def get_JObj)
  have "traverse
        (\<lambda>index req. parse_requirement ext M req
            (''.'' @ ''constraints'' @ ''['' @ str_nat index @ '']''))
        0 (map (\<lambda>constraint. JStr (str_of ext constraint)) (constraints L))
      = Inr (constraints L)"
    by (rule traverse_map_id)
      (use assms in \<open>auto simp: list_all_iff constraint_restored_def parse_requirement_def\<close>)
  then show ?thesis
    by (simp add: get_requirements_def g)
qed

lemma get_artifact_artifact_json:
  assumes "artifact_restored ext M a"
  shows "get_artifact ext src M req_path i (artifact_json ext M a) = Inr a"
  using assms
  by (simp add: get_artifact_def artifact_json_def get_JObj artifact_restored_def Let_def)

lemma get_locked_requirement_json:
  assumes "locked_requirement_restored ext M r"
  shows "get_locked_requirement ext src M lock_path j (locked_requirement_json ext M r) = Inr r"
proof -
  let ?p = "lock_path @ ''['' @ str_nat j @ '']''"
  have arts: "traverse (get_artifact ext src M ?p) 0
                (map (artifact_json ext M) (iter_artifacts r)) = Inr (iter_artifacts r)"
    by (rule traverse_map_id)
      (use assms in \<open>auto simp: list_all_iff locked_requirement_restored_def
          get_artifact_artifact_json\<close>)
  have dists: \<open>traverse
        (\<lambda>i requires_dist. parse_requirement ext M requires_dist
            (?p @ ''["requires_dists"]['' @ str_nat i @ '']''))
        0 (map (\<lambda>dependency. JStr (maybe_canonicalize ext M (str_of ext dependency)))
             (requires_dists r))
      = Inr (requires_dists r)\<close>
    by (rule traverse_map_id)
      (use assms in \<open>auto simp: list_all_iff locked_requirement_restored_def
          requirement_restored_def parse_requirement_def\<close>)
  have ne: "iter_artifacts r \<noteq> []" and hd: "hd (iter_artifacts r) = artifact r"
    and tl: "tl (iter_artifacts r) = additional_artifacts r"
    by (simp_all add: iter_artifacts_def)
  show ?thesis
    using assms arts dists ne hd tl
    by (cases "req_requires_python r")
      (simp_all add: get_locked_requirement_def locked_requirement_json_def get_JObj Let_def
        locked_requirement_restored_def parse_version_specifier_def)
qed

lemma get_locked_resolve_json:
  assumes "locked_resolve_restored ext M lr"
  shows "get_locked_resolve ext src M k (locked_resolve_json ext M lr) = Inr lr"
proof -
  let ?p = "''.locked_resolves['' @ str_nat k @ '']''"
  have reqs: "traverse (get_locked_requirement ext src M ?p) 0
                (map (locked_requirement_json ext M) (locked_requirements lr))
              = Inr (locked_requirements lr)"
    by (rule traverse_map_id)
      (use assms in \<open>auto simp: list_all_iff locked_resolve_restored_def
          get_locked_requirement_json\<close>)
  from assms have sorted: "SortedTuple (lt ext) (locked_requirements lr) = locked_requirements lr"
    by (simp add: locked_resolve_restored_def)
  show ?thesis
    using reqs sorted
    by (cases "platform_tag lr")
      (simp_all add: get_locked_resolve_def locked_resolve_json_def get_JObj Let_def
        assemble_tag_def)
qed

text \<open>
  C1, as amended. Let a \<open>Lockfile\<close> and path mappings be \<open>restored\<close>: the text of each
  enum value is looked up to the value, that of \<open>pip_version\<close> not being empty; the
  reified canonical text of each requirement and \<open>requires_dists\<close> entry parses to it and
  the canonical form of each artifact url reifies to the url; the path mappings leave the
  text of each constraint as it is and the text parses to the constraint; project names,
  versions and the \<open>requires_python\<close> that are present are constructed back from their
  texts, such a \<open>requires_python\<close> being true with a non-empty text; and the locked
  requirements are in the order of \<open>SortedTuple\<close>. Then parsing the document that
  \<open>as_json_data\<close> writes gives the \<open>Lockfile\<close> back, its \<open>source\<close> being the one that
  \<open>loads\<close> is given.
\<close>

theorem C1_round_trip:
  assumes "restored ext M L"
  shows "loads ext (Inr (as_json_data ext L M)) src M = Inr (L\<lparr>source := src\<rparr>)"
proof -
  let ?d = "as_json_data ext L M"
  from assms have ts: "get_target_systems ext src ?d = Inr (target_systems L)"
    by (simp add: restored_def get_target_systems_as_json_data)
  from assms have rs: "get_requirements ext src M ?d ''requirements'' = Inr (requirements L)"
    by (simp add: restored_def get_requirements_as_json_data)
  from assms have cs: "get_requirements ext src M ?d ''constraints'' = Inr (constraints L)"
    by (simp add: restored_def get_constraints_as_json_data)
  have lrs: "get src ''locked_resolves'' T_list ?d ''.'' False
      = Inr (JList (map (locked_resolve_json ext M) (locked_resolves L)))"
    by (simp add: as_json_data_def get_JObj)
  have tr: "traverse (get_locked_resolve ext src M) 0
              (map (locked_resolve_json ext M) (locked_resolves L)) = Inr (locked_resolves L)"
    by (rule traverse_map_id)
      (use assms in \<open>auto simp: list_all_iff restored_def get_locked_resolve_json\<close>)
  have pv: "get src ''pex_version'' T_str ?d ''.'' False = Inr (JStr (pex_version L))"
    by (simp add: as_json_data_def get_JObj)
  from assms have st: "get_enum_value ext src ?d LockStyle ''style'' ''.'' None = Inr (style L)"
    by (simp add: restored_def enum_restored_def get_enum_value_def parse_enum_value_def
        as_json_data_def get_JObj)
  have rp: "get src ''requires_python'' T_list ?d ''.'' False = Inr (JList (requires_python L))"
    by (simp add: as_json_data_def get_JObj)
  from assms have pip: "get_enum_value ext src ?d PipVersion ''pip_version'' ''.''
      (default_pip_version ext) = Inr (pip_version L)"
    by (cases "default_pip_version ext")
      (simp_all add: restored_def enum_restored_def get_enum_value_def parse_enum_value_def
        as_json_data_def get_JObj)
  from assms have rv: "get_enum_value ext src ?d ResolverVersion ''resolver_version'' ''.'' None
      = Inr (resolver_version L)"
    by (simp add: restored_def enum_restored_def get_enum_value_def parse_enum_value_def
        as_json_data_def get_JObj)
  have b1: "get src ''allow_prereleases'' T_bool ?d ''.'' False = Inr (JBool (allow_prereleases L))"
    by (simp add: as_json_data_def get_JObj)
  have b2: "get src ''allow_wheels'' T_bool ?d ''.'' False = Inr (JBool (allow_wheels L))"
    by (simp add: as_json_data_def get_JObj)
  have b3: "get src ''allow_builds'' T_bool ?d ''.'' False = Inr (JBool (allow_builds L))"
    by (simp add: as_json_data_def get_JObj)
  have b4: "get src ''prefer_older_binary'' T_bool ?d ''.'' False
      = Inr (JBool (prefer_older_binary L))"
    by (simp add: as_json_data_def get_JObj)
  have b5: "get src ''use_pep517'' T_bool ?d ''.'' True = Inr (use_pep517 L)"
    by (simp add: as_json_data_def get_JObj)
  have b6: "get src ''build_isolation'' T_bool ?d ''.'' False = Inr (JBool (build_isolation L))"
    by (simp add: as_json_data_def get_JObj)
  have b7: "get src ''transitive'' T_bool ?d ''.'' False = Inr (JBool (transitive L))"
    by (simp add: as_json_data_def get_JObj)
  show ?thesis
    by (simp add: loads_def check_path_mappings_as_json_data ts rs cs lrs tr pv st rp pip rv
        b1 b2 b3 b4 b5 b6 b7)
qed

theorem C1_round_trip_witness:
  "restored ext0 example_mappings
     (example_lock ''file:///home/u/ansicolors-1.1.8.whl'' [''six<2''])
   \<and> loads ext0
       (Inr (as_json_data ext0
          (example_lock ''file:///home/u/ansicolors-1.1.8.whl'' [''six<2''])
          example_mappings))
       ''lock.json'' example_mappings
     = Inr ((example_lock ''file:///home/u/ansicolors-1.1.8.whl'' [''six<2''])
              \<lparr>source := ''lock.json''\<rparr>)"
proof -
  have ok: "restored ext0 example_mappings
     (example_lock ''file:///home/u/ansicolors-1.1.8.whl'' [''six<2''])"
    by code_simp
  from C1_round_trip [OF ok, of "''lock.json''"] ok show ?thesis
    by simp
qed

text \<open>
  The claim as stated fails where the text of the \<open>Lockfile\<close> already holds a placeholder
  of the path mappings: the url \<open>file://${HOME}/ansicolors-1.1.8.whl\<close> has no occurrence of
  \<open>/home/u\<close>, so it is written as it is, and \<open>loads\<close> reifies it to
  \<open>file:///home/u/ansicolors-1.1.8.whl\<close>.
\<close>

theorem C1_placeholder_not_restored:
  "loads ext0
     (Inr (as_json_data ext0 (example_lock ''file://${HOME}/ansicolors-1.1.8.whl'' [])
        example_mappings))
     ''<string>'' example_mappings
   = Inr (example_lock ''file:///home/u/ansicolors-1.1.8.whl'' [])
   \<and> example_lock ''file:///home/u/ansicolors-1.1.8.whl'' []
       \<noteq> example_lock ''file://${HOME}/ansicolors-1.1.8.whl'' []"
  by code_simp

end
